theory Spec2Isabelle
  imports Complex_Main
begin

section \<open>net-emu: the trace-driven bandwidth controller (bandwidth\_control.py)\<close>

text \<open>
  The script replays a bandwidth trace against a network interface by running
  \<^verbatim>\<open>sudo tc ...\<close> commands. Everything it does to the outside world is an effect:
  a line printed, a shell command run, a sleep. The model threads a \<open>world\<close> through
  every function: the global \<open>target_interface\<close>, the wall clock, the log of effects
  in the order they happened, and the countdown to a termination signal.

  Times are rationals: \<open>time.time()\<close> and \<open>float(row[0])\<close> are Python floats, the model
  keeps their order and arithmetic and leaves rounding, infinities and NaN out.
  Strings are ASCII.
\<close>

subsection \<open>Effects, exceptions, the environment\<close>

text \<open>One constructor for each \<open>print\<close> statement of the script.\<close>

datatype msg =
    Executing string
  | Warning_tc string
  | Return_code int
  | Stderr_of string
  | Stdout_of string
  | Critical_error
  | Cleaning_up string
  | Cleanup_successful
  | Cleanup_failed
  | Initial_setup_complete string int string
  | Changed_bandwidth string int
  | Usage
  | Usage_example
  | Starting string
  | Using_trace string
  | Applying_latency string
  | Trace_empty
  | Skipping_invalid_row "string list"
  | Sleeping_for rat
  | End_of_trace
  | Trace_not_found string
  | Unexpected_error

datatype effect =
    Print msg
  | Exec string
  | Sleep rat

text \<open>
  The exceptions that travel through the script. \<open>PyException\<close> is any other
  subclass of \<open>Exception\<close> (an \<open>IndexError\<close> outside the row parser, an I/O error, a
  failure to start the subprocess). \<open>Signal\<close> marks the point where SIGINT or
  SIGTERM arrives: the registered handler \<open>cleanup_tc\<close> runs there and raises
  \<open>SystemExit(0)\<close>; no \<open>except\<close> clause of the script catches either, so the model
  lets \<open>Signal\<close> travel to the enclosing \<open>deliver\<close>, which runs the handler on the
  world of the interruption point.
\<close>

datatype exn = SystemExit int | FileNotFoundError | PyException | Signal

text \<open>What \<open>subprocess.run\<close> gives back: it raises, or it completes with a return
  code, stderr and stdout.\<close>

datatype tc_outcome = Not_invoked | Completed int string string

text \<open>What \<open>open(trace_file)\<close> and \<open>list(csv.reader(f))\<close> give: the rows of the
  file, each a list of fields (a blank line is the empty list).\<close>

datatype trace_source = Not_found | Io_error | Csv_rows "string list list"

text \<open>
  The environment of one run: the outcome and duration of the shell command run
  as the k-th effect, the file system, and Python's \<open>float\<close> and \<open>int\<close> on strings
  (\<open>None\<close> for \<open>ValueError\<close>).
\<close>

record env =
  subprocess :: "nat \<Rightarrow> string \<Rightarrow> tc_outcome"
  tc_time :: "nat \<Rightarrow> rat"
  open_trace :: "string \<Rightarrow> trace_source"
  py_float :: "string \<Rightarrow> rat option"
  py_int :: "string \<Rightarrow> int option"

record world =
  target_interface :: "string option"
  now :: rat
  out :: "effect list"
  pending :: "nat option"

type_synonym 'a prog = "world \<Rightarrow> (exn + 'a) \<times> world"

text \<open>
  Every effect is a point where a pending signal can arrive: \<open>pending = Some 0\<close>
  delivers it instead of the effect, \<open>Some (Suc n)\<close> lets n more effects pass,
  \<open>None\<close> is a run that no signal interrupts.
\<close>

definition emit :: "effect \<Rightarrow> unit prog" where
  "emit e w =
     (case pending w of
        Some 0 \<Rightarrow> (Inl Signal, w\<lparr>pending := None\<rparr>)
      | Some (Suc n) \<Rightarrow> (Inr (), w\<lparr>out := out w @ [e], pending := Some n\<rparr>)
      | None \<Rightarrow> (Inr (), w\<lparr>out := out w @ [e]\<rparr>))"

definition and_then :: "'a prog \<Rightarrow> ('a \<Rightarrow> 'b prog) \<Rightarrow> 'b prog" where
  "and_then m f w = (case m w of (Inl e, w') \<Rightarrow> (Inl e, w') | (Inr x, w') \<Rightarrow> f x w')"

fun run_all :: "unit prog list \<Rightarrow> unit prog" where
  "run_all [] w = (Inr (), w)"
| "run_all (m # ms) w =
     (case m w of (Inl e, w') \<Rightarrow> (Inl e, w') | (Inr _, w') \<Rightarrow> run_all ms w')"

definition raise :: "exn \<Rightarrow> 'a prog" where
  "raise e w = (Inl e, w)"

definition print :: "msg \<Rightarrow> unit prog" where
  "print m = emit (Print m)"

text \<open>\<open>time.sleep(d)\<close>: the clock moves on by d.\<close>

definition sleep :: "rat \<Rightarrow> unit prog" where
  "sleep d = and_then (emit (Sleep d)) (\<lambda>_ w. (Inr (), w\<lparr>now := now w + d\<rparr>))"

subsection \<open>Python's string operations\<close>

definition isspace :: "char \<Rightarrow> bool" where
  "isspace c = (c \<in> set [CHR 0x20, CHR 0x09, CHR 0x0A, CHR 0x0B, CHR 0x0C, CHR 0x0D,
                          CHR 0x1C, CHR 0x1D, CHR 0x1E, CHR 0x1F])"

definition strip :: "string \<Rightarrow> string" where
  "strip s = rev (dropWhile isspace (rev (dropWhile isspace s)))"

definition startswith :: "string \<Rightarrow> string \<Rightarrow> bool" where
  "startswith s p = (take (length p) s = p)"

definition lower_char :: "char \<Rightarrow> char" where
  "lower_char c =
     (case map_of (zip ''ABCDEFGHIJKLMNOPQRSTUVWXYZ'' ''abcdefghijklmnopqrstuvwxyz'') c of
        Some d \<Rightarrow> d
      | None \<Rightarrow> c)"

definition lower :: "string \<Rightarrow> string" where
  "lower s = map lower_char s"

definition digit_char :: "nat \<Rightarrow> char" where
  "digit_char n = ''0123456789'' ! n"

function str_nat :: "nat \<Rightarrow> string" where
  "str_nat n = (if n < 10 then [digit_char n] else str_nat (n div 10) @ [digit_char (n mod 10)])"
  by pat_completeness auto
termination
  by (relation "measure id") auto

declare str_nat.simps [simp del]

text \<open>\<open>f"{rate_kbit}"\<close> for a Python int.\<close>

definition str_int :: "int \<Rightarrow> string" where
  "str_int i = (if i < 0 then CHR ''-'' # str_nat (nat (- i)) else str_nat (nat i))"

subsection \<open>The constants and functions of the script\<close>

definition DEFAULT_LATENCY_MS :: string where
  "DEFAULT_LATENCY_MS = ''50ms''"

definition DEFAULT_BURST_BYTES :: int where
  "DEFAULT_BURST_BYTES = 15000"

text \<open>
  \<open>run_tc_command\<close>: print the command, run it through the shell, print a warning
  of four lines when its return code is not 0 (and go on: no return code is an
  error), and re-raise after a message when the subprocess could not be run.
\<close>

definition run_tc_command :: "env \<Rightarrow> string \<Rightarrow> unit prog" where
  "run_tc_command env command =
     (let full_command = ''sudo tc '' @ command in
      and_then (print (Executing full_command)) (\<lambda>_ w.
        and_then (emit (Exec full_command)) (\<lambda>_ w'.
          let k = length (out w) in
          (case subprocess env k full_command of
             Not_invoked \<Rightarrow>
               and_then (print Critical_error) (\<lambda>_. raise PyException)
           | Completed returncode err outp \<Rightarrow>
               if returncode \<noteq> 0 then
                 run_all [print (Warning_tc command), print (Return_code returncode),
                          print (Stderr_of err), print (Stdout_of outp)]
               else run_all [])
            (w'\<lparr>now := now w' + tc_time env k\<rparr>)) w))"

text \<open>\<open>if target_interface:\<close> is Python truthiness: neither \<open>None\<close> nor the empty
  string.\<close>

definition truthy :: "string option \<Rightarrow> bool" where
  "truthy x = (case x of None \<Rightarrow> False | Some s \<Rightarrow> s \<noteq> [])"

text \<open>The \<open>try\<close> ... \<open>except Exception\<close> of \<open>cleanup_tc\<close>: only a \<open>PyException\<close> (or
  \<open>FileNotFoundError\<close>) is caught; \<open>SystemExit\<close> and the signal pass.\<close>

definition cleanup_tc :: "env \<Rightarrow> unit prog" where
  "cleanup_tc env w =
     and_then
       (if truthy (target_interface w) then
          and_then (print (Cleaning_up (the (target_interface w)))) (\<lambda>_ w1.
            case and_then (run_tc_command env
                     (''qdisc del dev '' @ the (target_interface w) @ '' root''))
                   (\<lambda>_. print Cleanup_successful) w1 of
              (Inl PyException, w2) \<Rightarrow> print Cleanup_failed w2
            | (Inl FileNotFoundError, w2) \<Rightarrow> print Cleanup_failed w2
            | r \<Rightarrow> r)
        else run_all [])
       (\<lambda>_. raise (SystemExit 0)) w"

definition apply_bandwidth_latency :: "env \<Rightarrow> string \<Rightarrow> int \<Rightarrow> string \<Rightarrow> unit prog" where
  "apply_bandwidth_latency env interface rate_kbps latency_ms w =
     (let rate_kbit = rate_kbps; burst_bytes = DEFAULT_BURST_BYTES in
      run_all
        [run_tc_command env (''qdisc del dev '' @ interface @ '' root''),
         sleep (1 / 10),
         run_tc_command env (''qdisc add dev '' @ interface @ '' root handle 1: htb default 10''),
         run_tc_command env (''class add dev '' @ interface @ '' parent 1: classid 1:1 htb rate ''
            @ str_int rate_kbit @ ''kbit burst '' @ str_int burst_bytes),
         run_tc_command env (''qdisc add dev '' @ interface @ '' parent 1:1 handle 10: netem delay ''
            @ latency_ms),
         run_tc_command env (''filter add dev '' @ interface
            @ '' parent 1: protocol ip prio 1 u32 match ip src 0.0.0.0/0 match ip dst ''
            @ ''0.0.0.0/0 flowid 1:1''),
         print (Initial_setup_complete interface rate_kbit latency_ms)]
        (w\<lparr>target_interface := Some interface\<rparr>))"

definition change_bandwidth :: "env \<Rightarrow> string \<Rightarrow> int \<Rightarrow> unit prog" where
  "change_bandwidth env interface rate_kbps =
     (let rate_kbit = rate_kbps; burst_bytes = DEFAULT_BURST_BYTES in
      run_all
        [run_tc_command env (''class change dev '' @ interface @ '' parent 1: classid 1:1 htb rate ''
            @ str_int rate_kbit @ ''kbit burst '' @ str_int burst_bytes),
         print (Changed_bandwidth interface rate_kbit)])"

subsection \<open>The main script\<close>

text \<open>
  The row parser of the loop: \<open>float(row[0])\<close>, then \<open>int(row[1])\<close>; a
  \<open>ValueError\<close> of either or the \<open>IndexError\<close> of a row with one field is \<open>None\<close>.
  The loop calls it on non-empty rows only.
\<close>

definition parse_row :: "env \<Rightarrow> string list \<Rightarrow> (rat \<times> int) option" where
  "parse_row env row =
     (case row of
        [] \<Rightarrow> None
      | f0 # fs \<Rightarrow>
          (case py_float env f0 of
             None \<Rightarrow> None
           | Some time_offset \<Rightarrow>
               (case fs of
                  [] \<Rightarrow> None
                | f1 # _ \<Rightarrow>
                    (case py_int env f1 of
                       None \<Rightarrow> None
                     | Some throughput_kbps \<Rightarrow> Some (time_offset, throughput_kbps)))))"

text \<open>\<open>not row or (len(row) > 0 and row[0].strip().startswith('#'))\<close>\<close>

definition skipped_row :: "string list \<Rightarrow> bool" where
  "skipped_row row = (case row of [] \<Rightarrow> True | f0 # _ \<Rightarrow> startswith (strip f0) ''#'')"

text \<open>
  The \<open>for row in rows_to_process\<close> loop. \<open>initial_rate_set\<close> is the loop's
  local flag; \<open>break\<close> is the return without the remaining rows.
\<close>

fun event_loop :: "env \<Rightarrow> string \<Rightarrow> string \<Rightarrow> rat \<Rightarrow> bool \<Rightarrow> string list list \<Rightarrow> unit prog" where
  "event_loop env interface latency start_time initial_rate_set [] w = (Inr (), w)"
| "event_loop env interface latency start_time initial_rate_set (row # rows) w =
     (if skipped_row row then
        event_loop env interface latency start_time initial_rate_set rows w
      else
        case parse_row env row of
          None \<Rightarrow>
            and_then (print (Skipping_invalid_row row))
              (\<lambda>_. event_loop env interface latency start_time initial_rate_set rows) w
        | Some (time_offset, throughput_kbps) \<Rightarrow>
            (let current_time = now w;
                 target_exec_time = start_time + time_offset;
                 sleep_duration = target_exec_time - current_time
             in
               and_then
                 (if sleep_duration > 0 then
                    run_all [print (Sleeping_for sleep_duration), sleep sleep_duration]
                  else run_all [])
                 (\<lambda>_.
                    if throughput_kbps < 0 then print End_of_trace
                    else if \<not> initial_rate_set then
                      and_then (apply_bandwidth_latency env interface throughput_kbps latency)
                        (\<lambda>_. event_loop env interface latency start_time True rows)
                    else
                      and_then (change_bandwidth env interface throughput_kbps)
                        (\<lambda>_. event_loop env interface latency start_time initial_rate_set rows))
                 w))"

text \<open>
  The header test \<open>all_rows and (all_rows[0][0].strip().startswith('#') or
  all_rows[0][0].strip().lower() == 'time (s)')\<close>: a blank first line makes
  \<open>all_rows[0][0]\<close> raise \<open>IndexError\<close>.
\<close>

definition rows_to_process :: "string list list \<Rightarrow> exn + string list list" where
  "rows_to_process all_rows =
     (case all_rows of
        [] \<Rightarrow> Inr all_rows
      | [] # _ \<Rightarrow> Inl PyException
      | (f0 # _) # rest \<Rightarrow>
          if startswith (strip f0) ''#'' \<or> lower (strip f0) = ''time (s)'' then Inr rest
          else Inr all_rows)"

text \<open>The body of the \<open>try\<close> block.\<close>

definition try_body :: "env \<Rightarrow> string \<Rightarrow> string \<Rightarrow> string \<Rightarrow> rat \<Rightarrow> unit prog" where
  "try_body env interface trace_file latency start_time =
     (case open_trace env trace_file of
        Not_found \<Rightarrow> raise FileNotFoundError
      | Io_error \<Rightarrow> raise PyException
      | Csv_rows all_rows \<Rightarrow>
          (case rows_to_process all_rows of
             Inl e \<Rightarrow> raise e
           | Inr rows \<Rightarrow>
               if rows = [] then and_then (print Trace_empty) (\<lambda>_. raise (SystemExit 1))
               else event_loop env interface latency start_time False rows))"

text \<open>
  The signal handler: where a part of the script was cut by the signal,
  \<open>cleanup_tc\<close> runs on the world of that point and its \<open>SystemExit(0)\<close> goes on from
  there. One signal is modelled: none is pending while the handler runs.
\<close>

definition deliver :: "env \<Rightarrow> (exn + unit) \<times> world \<Rightarrow> (exn + unit) \<times> world" where
  "deliver env r =
     (case r of (Inl Signal, w) \<Rightarrow> cleanup_tc env (w\<lparr>pending := None\<rparr>) | _ \<Rightarrow> r)"

text \<open>The \<open>except\<close> clauses of the main \<open>try\<close>.\<close>

definition except_clauses :: "string \<Rightarrow> (exn + unit) \<times> world \<Rightarrow> (exn + unit) \<times> world" where
  "except_clauses trace_file r =
     (case r of
        (Inl FileNotFoundError, w) \<Rightarrow>
          and_then (print (Trace_not_found trace_file)) (\<lambda>_. raise (SystemExit 1)) w
      | (Inl PyException, w) \<Rightarrow> print Unexpected_error w
      | _ \<Rightarrow> r)"

text \<open>The \<open>finally\<close> clause: an exception of \<open>cleanup_tc()\<close> replaces the one in
  flight.\<close>

definition finally_cleanup :: "env \<Rightarrow> (exn + unit) \<times> world \<Rightarrow> (exn + unit) \<times> world" where
  "finally_cleanup env r =
     (case cleanup_tc env (snd r) of
        (Inl e, w) \<Rightarrow> (Inl e, w)
      | (Inr _, w) \<Rightarrow> (fst r, w))"

text \<open>How the process ends: the exit status, or death by the signal where no
  handler was registered yet.\<close>

datatype ending = Exit int | Killed

definition exit_status :: "exn + unit \<Rightarrow> ending" where
  "exit_status r =
     (case r of
        Inr _ \<Rightarrow> Exit 0
      | Inl (SystemExit n) \<Rightarrow> Exit n
      | Inl Signal \<Rightarrow> Killed
      | Inl _ \<Rightarrow> Exit 1)"

text \<open>\<open>latency = sys.argv[3] + "ms" if len(sys.argv) == 4 else DEFAULT_LATENCY_MS\<close>\<close>

definition latency_of_argv :: "string list \<Rightarrow> string" where
  "latency_of_argv argv = (if length argv = 4 then argv ! 3 @ ''ms'' else DEFAULT_LATENCY_MS)"

text \<open>The \<open>try\<close> statement up to its \<open>finally\<close>: the body, then the \<open>except\<close>
  clauses, a signal being handled where it arrives.\<close>

definition try_except ::
  "env \<Rightarrow> string \<Rightarrow> string \<Rightarrow> string \<Rightarrow> world \<Rightarrow> (exn + unit) \<times> world" where
  "try_except env interface trace_file latency w =
     deliver env (except_clauses trace_file
       (deliver env (try_body env interface trace_file latency (now w) w)))"

text \<open>
  The script from \<open>if __name__ == "__main__"\<close> on. \<open>argv\<close> is \<open>sys.argv\<close>, the
  script's name first. \<open>start_time = time.time()\<close> is the clock after the three
  opening lines are printed.
\<close>

definition main :: "env \<Rightarrow> string list \<Rightarrow> world \<Rightarrow> ending \<times> world" where
  "main env argv w =
     (if length argv < 3 \<or> length argv > 4 then
        (case run_all [print Usage, print Usage_example] w of
           (Inl e, w') \<Rightarrow> (exit_status (Inl e), w')
         | (Inr _, w') \<Rightarrow> (Exit 1, w'))
      else
        let interface = argv ! 1;
            trace_file = argv ! 2;
            latency = latency_of_argv argv
        in
          case deliver env (run_all [print (Starting interface), print (Using_trace trace_file),
                                     print (Applying_latency latency)] w) of
            (Inl e, w1) \<Rightarrow> (exit_status (Inl e), w1)
          | (Inr _, w1) \<Rightarrow>
              (let r = deliver env (finally_cleanup env
                         (try_except env interface trace_file latency w1))
               in (exit_status (fst r), snd r)))"

text \<open>The world a run starts in: no interface recorded, nothing done yet.\<close>

definition initial_world :: "rat \<Rightarrow> nat option \<Rightarrow> world" where
  "initial_world t sig = \<lparr>target_interface = None, now = t, out = [], pending = sig\<rparr>"

subsection \<open>Reading the log\<close>

text \<open>The shell commands of a log, in order.\<close>

fun commands :: "effect list \<Rightarrow> string list" where
  "commands [] = []"
| "commands (Exec c # es) = c # commands es"
| "commands (_ # es) = commands es"

text \<open>The commands and sleeps of a log, in order, without the printed lines.\<close>

fun actions :: "effect list \<Rightarrow> effect list" where
  "actions [] = []"
| "actions (Print m # es) = actions es"
| "actions (e # es) = e # actions es"

text \<open>How often \<open>cleanup_tc\<close> announced the teardown of the hierarchy.\<close>

fun teardowns :: "effect list \<Rightarrow> nat" where
  "teardowns [] = 0"
| "teardowns (Print (Cleaning_up i) # es) = Suc (teardowns es)"
| "teardowns (_ # es) = teardowns es"

text \<open>The command strings of the three operations on the hierarchy.\<close>

definition teardown_command :: "string \<Rightarrow> string" where
  "teardown_command interface = ''sudo tc qdisc del dev '' @ interface @ '' root''"

definition initial_apply_actions :: "string \<Rightarrow> int \<Rightarrow> string \<Rightarrow> effect list" where
  "initial_apply_actions interface rate latency =
     [Exec (''sudo tc qdisc del dev '' @ interface @ '' root''),
      Sleep (1 / 10),
      Exec (''sudo tc qdisc add dev '' @ interface @ '' root handle 1: htb default 10''),
      Exec (''sudo tc class add dev '' @ interface @ '' parent 1: classid 1:1 htb rate ''
            @ str_int rate @ ''kbit burst 15000''),
      Exec (''sudo tc qdisc add dev '' @ interface @ '' parent 1:1 handle 10: netem delay ''
            @ latency),
      Exec (''sudo tc filter add dev '' @ interface
            @ '' parent 1: protocol ip prio 1 u32 match ip src 0.0.0.0/0 match ip dst 0.0.0.0/0 flowid 1:1'')]"

definition rate_change_command :: "string \<Rightarrow> int \<Rightarrow> string" where
  "rate_change_command interface rate =
     ''sudo tc class change dev '' @ interface @ '' parent 1: classid 1:1 htb rate ''
       @ str_int rate @ ''kbit burst 15000''"

text \<open>The lines and the command that \<open>run_tc_command\<close> adds to a log of n entries
  when no signal cuts it.\<close>

definition run_tc_effects :: "env \<Rightarrow> nat \<Rightarrow> string \<Rightarrow> effect list" where
  "run_tc_effects env n command =
     [Print (Executing (''sudo tc '' @ command)), Exec (''sudo tc '' @ command)]
     @ (case subprocess env (Suc n) (''sudo tc '' @ command) of
          Not_invoked \<Rightarrow> [Print Critical_error]
        | Completed returncode err outp \<Rightarrow>
            if returncode \<noteq> 0 then
              [Print (Warning_tc command), Print (Return_code returncode),
               Print (Stderr_of err), Print (Stdout_of outp)]
            else [])"

text \<open>No subprocess of the run fails to start.\<close>

definition always_invoked :: "env \<Rightarrow> bool" where
  "always_invoked env = (\<forall>k c. subprocess env k c \<noteq> Not_invoked)"

subsection \<open>What the scheduler is to do, in the words of the specification\<close>

text \<open>
  The usable events of a list of rows: the rows that are neither blank nor
  comments and that parse, in file order; and the events up to the first
  end-of-trace sentinel.
\<close>

fun usable_events :: "env \<Rightarrow> string list list \<Rightarrow> (rat \<times> int) list" where
  "usable_events env [] = []"
| "usable_events env (row # rows) =
     (if skipped_row row then usable_events env rows
      else case parse_row env row of
             None \<Rightarrow> usable_events env rows
           | Some ev \<Rightarrow> ev # usable_events env rows)"

definition played_events :: "env \<Rightarrow> string list list \<Rightarrow> (rat \<times> int) list" where
  "played_events env rows = takeWhile (\<lambda>ev. 0 \<le> snd ev) (usable_events env rows)"

text \<open>One initial apply at the first rate, then one rate change for each rate
  after it.\<close>

definition scheduled_commands :: "string \<Rightarrow> string \<Rightarrow> int list \<Rightarrow> string list" where
  "scheduled_commands interface latency rates =
     (case rates of
        [] \<Rightarrow> []
      | r # rs \<Rightarrow> commands (initial_apply_actions interface r latency)
                  @ map (rate_change_command interface) rs)"

subsection \<open>A concrete environment\<close>

text \<open>
  A reader of plain decimal numerals, for the concrete runs below: an optional
  sign and digits for \<open>int\<close>; the same, or digits, a point and digits, for \<open>float\<close>.
  Python's \<open>int\<close> and \<open>float\<close> give the same values on these and accept more
  (underscores, exponents, \<open>inf\<close>).
\<close>

definition digit_of :: "char \<Rightarrow> nat option" where
  "digit_of c =
     (let n = (of_char c :: nat) in if 48 \<le> n \<and> n \<le> 57 then Some (n - 48) else None)"

fun dec_digits :: "string \<Rightarrow> nat \<Rightarrow> nat option" where
  "dec_digits [] acc = Some acc"
| "dec_digits (c # cs) acc =
     (case digit_of c of None \<Rightarrow> None | Some d \<Rightarrow> dec_digits cs (10 * acc + d))"

definition dec_nat :: "string \<Rightarrow> nat option" where
  "dec_nat s = (if s = [] then None else dec_digits s 0)"

definition dec_int :: "string \<Rightarrow> int option" where
  "dec_int s =
     (let t = strip s in
      if t \<noteq> [] \<and> hd t = CHR ''-'' then map_option (\<lambda>n. - int n) (dec_nat (tl t))
      else if t \<noteq> [] \<and> hd t = CHR ''+'' then map_option int (dec_nat (tl t))
      else map_option int (dec_nat t))"

definition dec_float :: "string \<Rightarrow> rat option" where
  "dec_float s =
     (let t = strip s;
          ip = takeWhile (\<lambda>c. c \<noteq> CHR ''.'') t;
          fp = dropWhile (\<lambda>c. c \<noteq> CHR ''.'') t
      in if fp = [] then map_option of_int (dec_int t)
         else case (dec_nat ip, dec_nat (tl fp)) of
                (Some a, Some b) \<Rightarrow> Some (of_nat a + of_nat b / 10 ^ length (tl fp))
              | _ \<Rightarrow> None)"

text \<open>An environment where every command succeeds at once and the one trace
  file \<open>trace.csv\<close> holds the given rows.\<close>

definition demo_env :: "string list list \<Rightarrow> env" where
  "demo_env rows =
     \<lparr>subprocess = (\<lambda>k c. Completed 0 [] []),
      tc_time = (\<lambda>k. 0),
      open_trace = (\<lambda>f. if f = ''trace.csv'' then Csv_rows rows else Not_found),
      py_float = dec_float,
      py_int = dec_int\<rparr>"

subsection \<open>Auxiliary notions for the proofs\<close>

text \<open>The world after the wait of the loop for an event due at \<open>start_time + time_offset\<close>,
  when no signal arrives: the sleep and its line when the event is in the future,
  nothing when it is due or late.\<close>

definition waited :: "rat \<Rightarrow> rat \<Rightarrow> world \<Rightarrow> world" where
  "waited start_time time_offset w =
     (if start_time + time_offset - now w > 0 then
        w\<lparr>out := out w @ [Print (Sleeping_for (start_time + time_offset - now w)),
                            Sleep (start_time + time_offset - now w)],
          now := start_time + time_offset\<rparr>
      else w)"

text \<open>A part of the script that leaves the global \<open>target_interface\<close> as it is.\<close>

definition keeps_target :: "'a prog \<Rightarrow> bool" where
  "keeps_target m = (\<forall>w. target_interface (snd (m w)) = target_interface w)"

text \<open>A part of the script that never announces a teardown.\<close>

definition no_teardown :: "'a prog \<Rightarrow> bool" where
  "no_teardown m = (\<forall>w. teardowns (out (snd (m w))) = teardowns (out w))"

text \<open>A part of the script during which, when no signal arrives, the clock does
  not run backwards.\<close>

definition steady :: "'a prog \<Rightarrow> bool" where
  "steady m = (\<forall>w. pending w = None \<longrightarrow> pending (snd (m w)) = None \<and> now w \<le> now (snd (m w)))"

text \<open>A part of the script that, when no signal is pending, leaves none pending,
  does not end by a signal and announces no teardown.\<close>

definition calm :: "'a prog \<Rightarrow> bool" where
  "calm m =
     (\<forall>w. pending w = None \<longrightarrow>
        pending (snd (m w)) = None \<and> fst (m w) \<noteq> Inl Signal
        \<and> teardowns (out (snd (m w))) = teardowns (out w))"

text \<open>The world in which the \<open>finally\<close> clause of a run starts, when no signal
  arrived while the three opening lines were printed.\<close>

definition before_cleanup :: "env \<Rightarrow> string list \<Rightarrow> world \<Rightarrow> world" where
  "before_cleanup env argv w =
     snd (try_except env (argv ! 1) (argv ! 2) (latency_of_argv argv)
            (w\<lparr>out := out w @ [Print (Starting (argv ! 1)), Print (Using_trace (argv ! 2)),
                                Print (Applying_latency (latency_of_argv argv))]\<rparr>))"

section \<open>Properties\<close>

subsection \<open>Reading a log that grows\<close>

lemma commands_append [simp]: "commands (xs @ ys) = commands xs @ commands ys"
  by (induction xs rule: commands.induct) simp_all

lemma actions_append [simp]: "actions (xs @ ys) = actions xs @ actions ys"
  by (induction xs rule: actions.induct) simp_all

lemma teardowns_append [simp]: "teardowns (xs @ ys) = teardowns xs + teardowns ys"
  by (induction xs rule: teardowns.induct) simp_all

lemma commands_run_tc_effects [simp]:
  "commands (run_tc_effects env n command) = [''sudo tc '' @ command]"
  by (simp add: run_tc_effects_def split: tc_outcome.splits)

lemma actions_run_tc_effects [simp]:
  "actions (run_tc_effects env n command) = [Exec (''sudo tc '' @ command)]"
  by (simp add: run_tc_effects_def split: tc_outcome.splits)

lemma teardowns_run_tc_effects [simp]:
  "teardowns (run_tc_effects env n command) = 0"
  by (simp add: run_tc_effects_def split: tc_outcome.splits)

lemma str_int_burst: "str_int DEFAULT_BURST_BYTES = ''15000''"
  by (simp add: str_int_def DEFAULT_BURST_BYTES_def str_nat.simps digit_char_def)

lemma str_int_1000: "str_int 1000 = ''1000''"
  by (simp add: str_int_def str_nat.simps digit_char_def)

lemma str_int_800: "str_int 800 = ''800''"
  by (simp add: str_int_def str_nat.simps digit_char_def)

lemma str_int_500: "str_int 500 = ''500''"
  by (simp add: str_int_def str_nat.simps digit_char_def)

subsection \<open>Runs that no signal interrupts\<close>

lemma emit_quiet: "pending w = None \<Longrightarrow> emit e w = (Inr (), w\<lparr>out := out w @ [e]\<rparr>)"
  by (simp add: emit_def)

lemma print_quiet: "pending w = None \<Longrightarrow> print m w = (Inr (), w\<lparr>out := out w @ [Print m]\<rparr>)"
  by (simp add: print_def emit_quiet)

lemma sleep_quiet:
  "pending w = None \<Longrightarrow> sleep d w = (Inr (), w\<lparr>out := out w @ [Sleep d], now := now w + d\<rparr>)"
  by (simp add: sleep_def and_then_def emit_quiet)

lemma run_tc_command_quiet:
  "pending w = None \<Longrightarrow>
   run_tc_command env command w =
     (if subprocess env (Suc (length (out w))) (''sudo tc '' @ command) = Not_invoked
      then Inl PyException else Inr (),
      w\<lparr>out := out w @ run_tc_effects env (length (out w)) command,
        now := now w + tc_time env (Suc (length (out w)))\<rparr>)"
  by (simp add: run_tc_command_def run_tc_effects_def Let_def and_then_def print_quiet emit_quiet
      raise_def split: tc_outcome.splits)

lemma change_bandwidth_quiet:
  assumes "pending w = None"
  shows "actions (out (snd (change_bandwidth env interface rate w))) =
           actions (out w) @ [Exec (rate_change_command interface rate)]"
    and "pending (snd (change_bandwidth env interface rate w)) = None"
    and "target_interface (snd (change_bandwidth env interface rate w)) = target_interface w"
  using assms
  by (simp_all add: change_bandwidth_def run_tc_command_quiet print_quiet rate_change_command_def
        str_int_burst)

lemma apply_quiet:
  assumes "pending w = None" and "always_invoked env"
  shows "fst (apply_bandwidth_latency env interface rate latency w) = Inr ()"
    and "actions (out (snd (apply_bandwidth_latency env interface rate latency w))) =
           actions (out w) @ initial_apply_actions interface rate latency"
    and "pending (snd (apply_bandwidth_latency env interface rate latency w)) = None"
    and "target_interface (snd (apply_bandwidth_latency env interface rate latency w)) =
           Some interface"
  using assms
  by (simp_all add: apply_bandwidth_latency_def always_invoked_def run_tc_command_quiet
        print_quiet sleep_quiet initial_apply_actions_def str_int_burst)

lemma cleanup_quiet:
  assumes "pending w = None"
  shows "fst (cleanup_tc env w) = Inl (SystemExit 0)"
    and "actions (out (snd (cleanup_tc env w))) =
           actions (out w) @ (if truthy (target_interface w)
                              then [Exec (teardown_command (the (target_interface w)))] else [])"
    and "\<not> truthy (target_interface w) \<Longrightarrow> snd (cleanup_tc env w) = w"
    and "target_interface (snd (cleanup_tc env w)) = target_interface w"
    and "pending (snd (cleanup_tc env w)) = None"
  using assms
  by (simp_all add: cleanup_tc_def and_then_def run_tc_command_quiet print_quiet raise_def
        teardown_command_def)

lemma demo_env_invoked: "always_invoked (demo_env rows)"
  by (simp add: always_invoked_def demo_env_def)

lemma initial_world_quiet [simp]:
  "pending (initial_world t None) = None" "out (initial_world t sig) = []"
  "target_interface (initial_world t sig) = None" "now (initial_world t sig) = t"
  by (simp_all add: initial_world_def)

subsection \<open>The rate change\<close>

text \<open>
  C8. A rate change that no signal cuts short runs exactly one external
  command and nothing else (no sleep): the \<open>class change\<close> of class 1:1 with the
  new rate and the burst of 15000 bytes. No \<open>qdisc\<close> and no \<open>filter\<close> command is
  run, so the netem discipline and the filter stay as they are, and the
  recorded interface is not touched. This holds whatever the command returns,
  also when the subprocess cannot be started.
\<close>

theorem change_bandwidth_one_command:
  assumes "pending w = None"
  shows "actions (out (snd (change_bandwidth env interface rate w))) =
           actions (out w) @
           [Exec (''sudo tc class change dev '' @ interface @
                  '' parent 1: classid 1:1 htb rate '' @ str_int rate @ ''kbit burst 15000'')]
         \<and> target_interface (snd (change_bandwidth env interface rate w)) = target_interface w"
  using change_bandwidth_quiet [OF assms, of env interface rate]
  by (simp add: rate_change_command_def)

theorem change_bandwidth_one_command_witness:
  "actions (out (snd (change_bandwidth (demo_env []) ''eth0'' 800 (initial_world 0 None)))) =
     [Exec ''sudo tc class change dev eth0 parent 1: classid 1:1 htb rate 800kbit burst 15000'']"
  using change_bandwidth_one_command [of "initial_world 0 None" "demo_env []" "''eth0''" 800]
  by (simp add: str_int_800)

subsection \<open>The initial apply\<close>

text \<open>
  C7. An initial apply that no signal cuts short and whose subprocesses all
  start runs, in this order and with nothing between them: the delete of the
  root qdisc, a sleep of 0.1 s, the creation of the root htb qdisc with default
  class 10, of class 1:1 with the event's rate and a burst of 15000 bytes, of the
  netem qdisc with the given delay, and of the catch-all IP filter into 1:1. It
  returns normally whatever the return codes are, so a delete that fails because
  nothing was there is tolerated. The delay is \<open>50ms\<close> when the command line has
  no fourth argument and that argument followed by \<open>ms\<close> when it has.
\<close>

theorem apply_bandwidth_latency_sequence:
  assumes "pending w = None" and "always_invoked env"
  shows "fst (apply_bandwidth_latency env interface rate latency w) = Inr ()
         \<and> actions (out (snd (apply_bandwidth_latency env interface rate latency w))) =
             actions (out w) @
             [Exec (''sudo tc qdisc del dev '' @ interface @ '' root''),
              Sleep (1 / 10),
              Exec (''sudo tc qdisc add dev '' @ interface @ '' root handle 1: htb default 10''),
              Exec (''sudo tc class add dev '' @ interface @ '' parent 1: classid 1:1 htb rate ''
                    @ str_int rate @ ''kbit burst 15000''),
              Exec (''sudo tc qdisc add dev '' @ interface @
                    '' parent 1:1 handle 10: netem delay '' @ latency),
              Exec (''sudo tc filter add dev '' @ interface @
                    '' parent 1: protocol ip prio 1 u32 match ip src 0.0.0.0/0 match ip dst 0.0.0.0/0 flowid 1:1'')]
         \<and> latency_of_argv [prog, interface, trace_file] = ''50ms''
         \<and> latency_of_argv [prog, interface, trace_file, ms] = ms @ ''ms''"
  using apply_quiet(1,2) [OF assms, of interface rate latency]
  by (simp add: initial_apply_actions_def latency_of_argv_def DEFAULT_LATENCY_MS_def)

theorem apply_bandwidth_latency_sequence_witness:
  "actions (out (snd (apply_bandwidth_latency (demo_env []) ''eth0'' 1000 ''50ms''
                        (initial_world 0 None)))) =
     [Exec ''sudo tc qdisc del dev eth0 root'',
      Sleep (1 / 10),
      Exec ''sudo tc qdisc add dev eth0 root handle 1: htb default 10'',
      Exec ''sudo tc class add dev eth0 parent 1: classid 1:1 htb rate 1000kbit burst 15000'',
      Exec ''sudo tc qdisc add dev eth0 parent 1:1 handle 10: netem delay 50ms'',
      Exec ''sudo tc filter add dev eth0 parent 1: protocol ip prio 1 u32 match ip src 0.0.0.0/0 match ip dst 0.0.0.0/0 flowid 1:1'']"
  using apply_bandwidth_latency_sequence
    [of "initial_world 0 None" "demo_env []" "''eth0''" 1000 "''50ms''"]
  by (simp add: demo_env_invoked str_int_1000)

subsection \<open>How a part of the script can end, signal or not\<close>

lemma emit_fst: "fst (emit e w) = Inr () \<or> fst (emit e w) = Inl Signal"
  by (simp add: emit_def split: option.splits nat.splits)

lemma print_fst: "fst (print m w) = Inr () \<or> fst (print m w) = Inl Signal"
  by (simp add: print_def emit_fst)

lemma and_then_fst:
  "fst (and_then m f w) = (case fst (m w) of Inl e \<Rightarrow> Inl e | Inr x \<Rightarrow> fst (f x (snd (m w))))"
  by (simp add: and_then_def split: prod.splits sum.splits)

lemma run_all_Cons_fst:
  "fst (run_all (m # ms) w) = (case fst (m w) of Inl e \<Rightarrow> Inl e | Inr x \<Rightarrow> fst (run_all ms (snd (m w))))"
  by (simp split: prod.splits sum.splits)

lemma run_all_prints_fst:
  "fst (run_all (map print ms) w) = Inr () \<or> fst (run_all (map print ms) w) = Inl Signal"
proof (induction ms arbitrary: w)
  case Nil
  then show ?case by simp
next
  case (Cons m ms)
  show ?case
    using print_fst [of m w] Cons.IH [of "snd (print m w)"]
    by (auto simp: run_all_Cons_fst simp del: run_all.simps)
qed

lemma run_tc_command_fst:
  "fst (run_tc_command env c w) = Inr () \<or> fst (run_tc_command env c w) = Inl PyException
   \<or> fst (run_tc_command env c w) = Inl Signal"
proof -
  have warn: "fst (run_all [print a, print b, print c', print d] v) = Inr ()
      \<or> fst (run_all [print a, print b, print c', print d] v) = Inl Signal" for a b c' d v
    using run_all_prints_fst [of "[a, b, c', d]" v] by simp
  have tail: "fst ((case subprocess env k full of
             Not_invoked \<Rightarrow> and_then (print Critical_error) (\<lambda>_. raise PyException)
           | Completed returncode err outp \<Rightarrow>
               if returncode \<noteq> 0 then
                 run_all [print (Warning_tc c), print (Return_code returncode),
                          print (Stderr_of err), print (Stdout_of outp)]
               else run_all []) v) \<in> {Inr (), Inl PyException, Inl Signal}" for k full v
  proof (cases "subprocess env k full")
    case Not_invoked
    then show ?thesis
      using print_fst [of Critical_error v]
      by (auto simp: and_then_fst raise_def)
  next
    case (Completed rc err outp)
    then show ?thesis
      using warn [of "Warning_tc c" "Return_code rc" "Stderr_of err" "Stdout_of outp" v]
      by (auto simp del: run_all.simps simp: run_all.simps(1))
  qed
  define full where "full = ''sudo tc '' @ c"
  define w1 where "w1 = snd (print (Executing full) w)"
  define w2 where "w2 = snd (emit (Exec full) w1)"
  define v where "v = w2\<lparr>now := now w2 + tc_time env (length (out w1))\<rparr>"
  show ?thesis
    using print_fst [of "Executing full" w] emit_fst [of "Exec full" w1]
      tail [of "length (out w1)" full v]
    unfolding run_tc_command_def Let_def full_def [symmetric]
    by (auto simp: and_then_fst w1_def w2_def v_def simp del: run_all.simps)
qed

lemma cleanup_fst:
  "fst (cleanup_tc env w) = Inl (SystemExit 0) \<or> fst (cleanup_tc env w) = Inl Signal"
proof (cases "truthy (target_interface w)")
  case False
  then show ?thesis by (simp add: cleanup_tc_def and_then_def raise_def)
next
  case True
  define i where "i = the (target_interface w)"
  define w1 where "w1 = snd (print (Cleaning_up i) w)"
  define r where "r = and_then (run_tc_command env (''qdisc del dev '' @ i @ '' root''))
                   (\<lambda>_. print Cleanup_successful) w1"
  have r: "fst r \<in> {Inr (), Inl PyException, Inl Signal}"
    using run_tc_command_fst [of env "''qdisc del dev '' @ i @ '' root''" w1]
      print_fst [of Cleanup_successful
        "snd (run_tc_command env (''qdisc del dev '' @ i @ '' root'') w1)"]
    unfolding r_def by (auto simp: and_then_fst)
  have "fst (case r of (Inl PyException, w2) \<Rightarrow> print Cleanup_failed w2
            | (Inl FileNotFoundError, w2) \<Rightarrow> print Cleanup_failed w2
            | r \<Rightarrow> r) \<in> {Inr (), Inl Signal}"
    using r print_fst [of Cleanup_failed "snd r"]
    by (cases r) (auto split: sum.splits exn.splits)
  then show ?thesis
    using True print_fst [of "Cleaning_up i" w]
    unfolding cleanup_tc_def i_def [symmetric]
    by (auto simp: and_then_fst raise_def r_def w1_def)
qed

lemma deliver_cleanup_fst: "fst (deliver env (cleanup_tc env w)) = Inl (SystemExit 0)"
  using cleanup_fst [of env w]
  by (cases "cleanup_tc env w") (auto simp: deliver_def cleanup_quiet(1))

lemma deliver_finally_fst: "fst (deliver env (finally_cleanup env r)) = Inl (SystemExit 0)"
proof -
  have "finally_cleanup env r = cleanup_tc env (snd r)"
    using cleanup_fst [of env "snd r"]
    by (cases "cleanup_tc env (snd r)") (auto simp: finally_cleanup_def)
  then show ?thesis by (simp add: deliver_cleanup_fst)
qed

lemma deliver_prints_fst:
  "fst (deliver env (run_all (map print ms) w)) = Inr ()
   \<or> fst (deliver env (run_all (map print ms) w)) = Inl (SystemExit 0)"
  using run_all_prints_fst [of ms w]
  by (cases "run_all (map print ms) w") (auto simp: deliver_def cleanup_quiet(1))

lemma main_exit_0:
  assumes "3 \<le> length argv" and "length argv \<le> 4"
  shows "fst (main env argv w) = Exit 0"
proof -
  let ?i = "argv ! 1" and ?f = "argv ! 2" and ?l = "latency_of_argv argv"
  let ?p = "deliver env (run_all [print (Starting ?i), print (Using_trace ?f),
                                     print (Applying_latency ?l)] w)"
  have p: "fst ?p = Inr () \<or> fst ?p = Inl (SystemExit 0)"
    using deliver_prints_fst [of env "[Starting ?i, Using_trace ?f, Applying_latency ?l]" w]
    by simp
  show ?thesis
    using assms p
    unfolding main_def Let_def
    by (cases ?p) (auto simp: exit_status_def deliver_finally_fst simp del: run_all.simps)
qed

subsection \<open>What leaves the recorded interface alone\<close>

lemma keeps_target_emit: "keeps_target (emit e)"
  by (simp add: keeps_target_def emit_def split: option.splits nat.splits)

lemma keeps_target_print: "keeps_target (print m)"
  by (simp add: print_def keeps_target_emit)

lemma keeps_target_raise: "keeps_target (raise e)"
  by (simp add: keeps_target_def raise_def)

lemma keeps_target_and_then:
  assumes "keeps_target m" and "\<And>x. keeps_target (f x)"
  shows "keeps_target (and_then m f)"
  using assms
  by (auto simp: keeps_target_def and_then_def split: prod.splits sum.splits) (metis snd_conv)+

lemma keeps_target_run_all:
  assumes "\<And>m. m \<in> set ms \<Longrightarrow> keeps_target m"
  shows "keeps_target (run_all ms)"
  using assms
proof (induction ms)
  case Nil
  then show ?case by (simp add: keeps_target_def)
next
  case (Cons m ms)
  have m: "keeps_target m" and ms: "keeps_target (run_all ms)"
    using Cons by simp_all
  show ?case
    unfolding keeps_target_def
  proof
    fix w
    show "target_interface (snd (run_all (m # ms) w)) = target_interface w"
      using m ms
      by (cases "m w") (auto simp: keeps_target_def split: sum.splits, (metis snd_conv)+)
  qed
qed

lemma and_then_alt:
  "and_then m f w = (case fst (m w) of Inl e \<Rightarrow> (Inl e, snd (m w)) | Inr x \<Rightarrow> f x (snd (m w)))"
  by (simp add: and_then_def split: prod.splits sum.splits)

lemma keeps_targetD: "keeps_target m \<Longrightarrow> target_interface (snd (m w)) = target_interface w"
  by (simp add: keeps_target_def)

lemma keeps_target_sleep: "keeps_target (sleep d)"
  using keeps_targetD [OF keeps_target_emit]
  by (simp add: keeps_target_def sleep_def and_then_alt split: sum.splits)

lemma keeps_target_run_tc_command: "keeps_target (run_tc_command env c)"
proof -
  have T: "keeps_target (case subprocess env k full of
             Not_invoked \<Rightarrow> and_then (print Critical_error) (\<lambda>_. raise PyException)
           | Completed returncode err outp \<Rightarrow>
               if returncode \<noteq> 0 then
                 run_all [print (Warning_tc c), print (Return_code returncode),
                          print (Stderr_of err), print (Stdout_of outp)]
               else run_all [])" for k full
    by (cases "subprocess env k full")
      (auto intro!: keeps_target_and_then keeps_target_print keeps_target_raise keeps_target_run_all
        simp del: run_all.simps)
  show ?thesis
    using keeps_targetD [OF T] keeps_targetD [OF keeps_target_emit] keeps_targetD [OF keeps_target_print]
    by (simp add: keeps_target_def run_tc_command_def Let_def and_then_alt split: sum.splits)
qed

lemma apply_sets_target:
  "target_interface (snd (apply_bandwidth_latency env interface rate latency w)) = Some interface"
proof -
  have "keeps_target (run_all
        [run_tc_command env (''qdisc del dev '' @ interface @ '' root''),
         sleep (1 / 10),
         run_tc_command env (''qdisc add dev '' @ interface @ '' root handle 1: htb default 10''),
         run_tc_command env (''class add dev '' @ interface @ '' parent 1: classid 1:1 htb rate ''
            @ str_int rate @ ''kbit burst '' @ str_int DEFAULT_BURST_BYTES),
         run_tc_command env (''qdisc add dev '' @ interface @ '' parent 1:1 handle 10: netem delay ''
            @ latency),
         run_tc_command env (''filter add dev '' @ interface
            @ '' parent 1: protocol ip prio 1 u32 match ip src 0.0.0.0/0 match ip dst ''
            @ ''0.0.0.0/0 flowid 1:1''),
         print (Initial_setup_complete interface rate latency)])"
    by (rule keeps_target_run_all)
      (auto intro: keeps_target_run_tc_command keeps_target_sleep keeps_target_print)
  from keeps_targetD [OF this] show ?thesis
    by (simp add: apply_bandwidth_latency_def Let_def del: run_all.simps)
qed

lemma keeps_target_change_bandwidth: "keeps_target (change_bandwidth env interface rate)"
  unfolding change_bandwidth_def Let_def
  by (rule keeps_target_run_all)
    (auto intro: keeps_target_run_tc_command keeps_target_print)

subsection \<open>The cleanup\<close>

text \<open>
  C10. \<open>cleanup_tc\<close>, when no signal cuts it short, runs the delete of the root
  qdisc exactly when the global \<open>target_interface\<close> is set (to a non-empty name),
  and then runs nothing else; when it is not set, \<open>cleanup_tc\<close> has no effect at
  all, not even a printed line. The global is \<open>None\<close> when the run starts, the
  initial apply sets it to the interface whatever happens afterwards, and a rate
  change leaves it alone. In both cases \<open>cleanup_tc\<close> raises \<open>SystemExit(0)\<close>, and
  every run that passes the argument check, error paths and signals included,
  ends with exit status 0.
\<close>

theorem cleanup_tc_command_and_exit:
  "(pending w = None \<longrightarrow>
      fst (cleanup_tc env w) = Inl (SystemExit 0)
      \<and> actions (out (snd (cleanup_tc env w))) =
          actions (out w) @
          (if truthy (target_interface w)
           then [Exec (''sudo tc qdisc del dev '' @ the (target_interface w) @ '' root'')]
           else [])
      \<and> (\<not> truthy (target_interface w) \<longrightarrow> snd (cleanup_tc env w) = w))
   \<and> \<not> truthy (target_interface (initial_world t sig))
   \<and> target_interface (snd (apply_bandwidth_latency env interface rate latency w1)) = Some interface
   \<and> (truthy (Some interface) \<longleftrightarrow> interface \<noteq> [])
   \<and> target_interface (snd (change_bandwidth env interface rate w2)) = target_interface w2
   \<and> (3 \<le> length argv \<and> length argv \<le> 4 \<longrightarrow> fst (main env argv w3) = Exit 0)"
  using cleanup_quiet(1,2,3) [of w env] main_exit_0 [of argv env w3]
    keeps_targetD [OF keeps_target_change_bandwidth, of env interface rate w2]
  by (simp add: teardown_command_def apply_sets_target truthy_def)

theorem cleanup_tc_command_and_exit_witness:
  "actions (out (snd (cleanup_tc (demo_env [])
       \<lparr>target_interface = Some ''eth0'', now = 0, out = [], pending = None\<rparr>))) =
     [Exec ''sudo tc qdisc del dev eth0 root'']
   \<and> snd (cleanup_tc (demo_env []) (initial_world 0 None)) = initial_world 0 None
   \<and> fst (cleanup_tc (demo_env []) (initial_world 0 None)) = Inl (SystemExit 0)
   \<and> fst (main (demo_env []) [''bandwidth_control.py'', ''eth0'', ''missing.csv'']
            (initial_world 0 None)) = Exit 0"
  using cleanup_tc_command_and_exit
    [of "\<lparr>target_interface = Some ''eth0'', now = 0, out = [], pending = None\<rparr>" "demo_env []"
        0 None "''eth0''" 0 "''50ms''" "initial_world 0 None" "initial_world 0 None"
        "[''bandwidth_control.py'', ''eth0'', ''missing.csv'']" "initial_world 0 None"]
    cleanup_tc_command_and_exit
    [of "initial_world 0 None" "demo_env []"
        0 None "''eth0''" 0 "''50ms''" "initial_world 0 None" "initial_world 0 None"
        "[''bandwidth_control.py'', ''eth0'', ''missing.csv'']" "initial_world 0 None"]
  by (simp add: truthy_def)

subsection \<open>Exit status on the error paths\<close>

lemmas run_defs = Let_def main_def try_except_def try_body_def deliver_def except_clauses_def
  finally_cleanup_def cleanup_tc_def rows_to_process_def latency_of_argv_def
  DEFAULT_LATENCY_MS_def exit_status_def and_then_def raise_def truthy_def
  print_quiet

lemmas demo_defs = demo_env_def initial_world_def

text \<open>
  C3. With a trace file that does not exist, and with an empty trace file, the
  script prints the error and calls \<open>sys.exit(1)\<close>; the \<open>finally\<close> clause then calls
  \<open>cleanup_tc()\<close>, whose \<open>sys.exit(0)\<close> replaces the exit in flight: the process
  ends with status 0, not 1.
\<close>

theorem main_error_paths_exit_status:
  "main (demo_env []) [''bandwidth_control.py'', ''eth0'', ''missing.csv''] (initial_world 0 None) =
     (Exit 0, \<lparr>target_interface = None, now = 0,
        out = [Print (Starting ''eth0''), Print (Using_trace ''missing.csv''),
               Print (Applying_latency ''50ms''), Print (Trace_not_found ''missing.csv'')],
        pending = None\<rparr>)
   \<and> main (demo_env []) [''bandwidth_control.py'', ''eth0'', ''trace.csv''] (initial_world 0 None) =
     (Exit 0, \<lparr>target_interface = None, now = 0,
        out = [Print (Starting ''eth0''), Print (Using_trace ''trace.csv''),
               Print (Applying_latency ''50ms''), Print Trace_empty],
        pending = None\<rparr>)"
  by (simp add: run_defs demo_defs)

subsection \<open>The loop, row by row, when no signal arrives\<close>

lemma commands_actions [simp]: "commands (actions es) = commands es"
  by (induction es rule: actions.induct) simp_all

lemma waited_simps [simp]:
  "pending (waited st t w) = pending w"
  "target_interface (waited st t w) = target_interface w"
  "commands (out (waited st t w)) = commands (out w)"
  "teardowns (out (waited st t w)) = teardowns (out w)"
  by (simp_all add: waited_def)

lemma actions_waited:
  "actions (out (waited st t w)) =
     actions (out w) @ (if st + t > now w then [Sleep (st + t - now w)] else [])"
  by (simp add: waited_def)

lemma now_waited: "now (waited st t w) = max (now w) (st + t)"
  by (simp add: waited_def max_def)

lemma wait_quiet:
  "pending w = None \<Longrightarrow>
   (if st + t - now w > 0
    then run_all [print (Sleeping_for (st + t - now w)), sleep (st + t - now w)]
    else run_all []) w = (Inr (), waited st t w)"
  by (simp add: waited_def print_quiet sleep_quiet)

lemma event_loop_skip:
  "skipped_row row \<Longrightarrow>
   event_loop env i l st flag (row # rows) w = event_loop env i l st flag rows w"
  by simp

lemma event_loop_invalid:
  "\<not> skipped_row row \<Longrightarrow> parse_row env row = None \<Longrightarrow> pending w = None \<Longrightarrow>
   event_loop env i l st flag (row # rows) w =
     event_loop env i l st flag rows (w\<lparr>out := out w @ [Print (Skipping_invalid_row row)]\<rparr>)"
  by (simp add: and_then_def print_quiet)

lemma event_loop_sentinel:
  "\<not> skipped_row row \<Longrightarrow> parse_row env row = Some (t, k) \<Longrightarrow> k < 0 \<Longrightarrow> pending w = None \<Longrightarrow>
   event_loop env i l st flag (row # rows) w =
     (Inr (), (waited st t w)\<lparr>out := out (waited st t w) @ [Print End_of_trace]\<rparr>)"
  using wait_quiet [of w st t]
  by (simp add: and_then_def Let_def print_quiet del: run_all.simps)

lemma event_loop_first:
  "\<not> skipped_row row \<Longrightarrow> parse_row env row = Some (t, k) \<Longrightarrow> 0 \<le> k \<Longrightarrow> pending w = None \<Longrightarrow>
   event_loop env i l st False (row # rows) w =
     and_then (apply_bandwidth_latency env i k l) (\<lambda>_. event_loop env i l st True rows)
       (waited st t w)"
  using wait_quiet [of w st t]
  by (simp add: and_then_def Let_def del: run_all.simps)

lemma event_loop_next:
  "\<not> skipped_row row \<Longrightarrow> parse_row env row = Some (t, k) \<Longrightarrow> 0 \<le> k \<Longrightarrow> pending w = None \<Longrightarrow>
   event_loop env i l st True (row # rows) w =
     and_then (change_bandwidth env i k) (\<lambda>_. event_loop env i l st True rows)
       (waited st t w)"
  using wait_quiet [of w st t]
  by (simp add: and_then_def Let_def del: run_all.simps)

lemma change_bandwidth_fst:
  "pending w = None \<Longrightarrow> always_invoked env \<Longrightarrow> fst (change_bandwidth env i k w) = Inr ()"
  by (simp add: change_bandwidth_def run_tc_command_quiet print_quiet always_invoked_def)

lemma played_events_Cons:
  "played_events env (row # rows) =
     (if skipped_row row then played_events env rows
      else case parse_row env row of
             None \<Rightarrow> played_events env rows
           | Some ev \<Rightarrow> if 0 \<le> snd ev then ev # played_events env rows else [])"
  by (simp add: played_events_def split: option.splits)

lemma played_events_Nil [simp]: "played_events env [] = []"
  by (simp add: played_events_def)

lemma event_loop_commands:
  assumes "always_invoked env"
  shows "pending w = None \<Longrightarrow>
     fst (event_loop env i l st flag rows w) = Inr ()
     \<and> pending (snd (event_loop env i l st flag rows w)) = None
     \<and> commands (out (snd (event_loop env i l st flag rows w))) =
         commands (out w) @
         (if flag then map (rate_change_command i) (map snd (played_events env rows))
          else scheduled_commands i l (map snd (played_events env rows)))"
proof (induction rows arbitrary: w flag)
  case Nil
  then show ?case by (simp add: scheduled_commands_def)
next
  case (Cons row rows)
  show ?case
  proof (cases "skipped_row row")
    case True
    then show ?thesis
      using Cons.IH [OF Cons.prems, of flag]
      by (simp add: played_events_Cons del: event_loop.simps add: event_loop_skip)
  next
    case False
    note ns = this
    show ?thesis
    proof (cases "parse_row env row")
      case None
      then show ?thesis
        using Cons.IH [of "w\<lparr>out := out w @ [Print (Skipping_invalid_row row)]\<rparr>" flag] Cons.prems ns
        by (simp add: played_events_Cons event_loop_invalid del: event_loop.simps)
    next
      case (Some ev)
      obtain t k where ev: "ev = (t, k)" by (cases ev)
      show ?thesis
      proof (cases "k < 0")
        case True
        then show ?thesis
          using Some ev ns Cons.prems
          by (simp add: played_events_Cons event_loop_sentinel scheduled_commands_def
              del: event_loop.simps)
      next
        case nonneg: False
        let ?w1 = "waited st t w"
        have q1: "pending ?w1 = None" using Cons.prems by simp
        show ?thesis
        proof (cases flag)
          case True
          let ?w2 = "snd (change_bandwidth env i k ?w1)"
          have c: "fst (change_bandwidth env i k ?w1) = Inr ()"
            using change_bandwidth_fst [OF q1 assms] .
          have a: "actions (out ?w2) = actions (out ?w1) @ [Exec (rate_change_command i k)]"
            and p: "pending ?w2 = None"
            using change_bandwidth_quiet [OF q1, of env i k] by simp_all
          have cm: "commands (out ?w2) = commands (out w) @ [rate_change_command i k]"
            using arg_cong [OF a, of commands] by simp
          have step: "event_loop env i l st True (row # rows) w = event_loop env i l st True rows ?w2"
            using event_loop_next [of row env t k w i l st rows] ns Some ev nonneg Cons.prems c
            by (simp add: and_then_alt del: event_loop.simps)
          show ?thesis
            using Cons.IH [OF p, of True] True Some ev ns nonneg cm
            by (simp add: step played_events_Cons del: event_loop.simps)
        next
          case False
          let ?w2 = "snd (apply_bandwidth_latency env i k l ?w1)"
          have c: "fst (apply_bandwidth_latency env i k l ?w1) = Inr ()"
            and a: "actions (out ?w2) = actions (out ?w1) @ initial_apply_actions i k l"
            and p: "pending ?w2 = None"
            using apply_quiet [OF q1 assms, of i k l] by simp_all
          have cm: "commands (out ?w2) = commands (out w) @ commands (initial_apply_actions i k l)"
            using arg_cong [OF a, of commands] by simp
          have step: "event_loop env i l st False (row # rows) w = event_loop env i l st True rows ?w2"
            using event_loop_first [of row env t k w i l st rows] ns Some ev nonneg Cons.prems c
            by (simp add: and_then_alt del: event_loop.simps)
          show ?thesis
            using Cons.IH [OF p, of True] False Some ev ns nonneg cm
            by (simp add: step played_events_Cons scheduled_commands_def del: event_loop.simps)
        qed
      qed
    qed
  qed
qed

subsection \<open>Rows of the concrete traces\<close>

lemmas parse_defs = parse_row_def skipped_row_def startswith_def strip_def isspace_def
  dec_float_def dec_int_def dec_nat_def digit_of_def demo_env_def

lemma parse_0_m1: "parse_row (demo_env R) [''0'', ''-1''] = Some (0, -1)"
  by (simp add: parse_defs)

lemma parse_1_500: "parse_row (demo_env R) [''1'', ''500''] = Some (1, 500)"
  by (simp add: parse_defs)

lemma parse_0_500: "parse_row (demo_env R) [''0'', ''500''] = Some (0, 500)"
  by (simp add: parse_defs)

lemma parse_0_800: "parse_row (demo_env R) [''0'', ''800''] = Some (0, 800)"
  by (simp add: parse_defs)

lemma parse_0_1000: "parse_row (demo_env R) [''0'', ''1000''] = Some (0, 1000)"
  by (simp add: parse_defs)

lemma parse_2_m1: "parse_row (demo_env R) [''2'', ''-1''] = Some (2, -1)"
  by (simp add: parse_defs)

lemma parse_abc_500: "parse_row (demo_env R) [''abc'', ''500''] = None"
  by (simp add: parse_defs)

lemma not_skipped_digit:
  "\<not> skipped_row [''0'', x]" "\<not> skipped_row [''1'', x]" "\<not> skipped_row [''2'', x]"
  "\<not> skipped_row [''abc'', x]"
  by (simp_all add: skipped_row_def startswith_def strip_def isspace_def)

lemma played_two_rates:
  "played_events (demo_env R) [[''0'', ''500''], [''0'', ''800'']] = [(0, 500), (0, 800)]"
  by (simp add: played_events_Cons not_skipped_digit parse_0_500 parse_0_800)

lemma played_sentinel_first:
  "played_events (demo_env R) [[''0'', ''-1''], [''1'', ''500'']] = []"
  by (simp add: played_events_Cons not_skipped_digit parse_0_m1)

subsection \<open>The order of the operations\<close>

text \<open>
  C2, as amended. In a run that no signal interrupts and whose subprocesses all
  start, the loop runs, for the usable events before the first end-of-trace
  sentinel, in file order: nothing when there is no such event; otherwise the
  commands of one initial apply, with the rate of the first of them and the
  configured latency, and then one \<open>class change\<close> for each later one, with its
  rate. So a rate change never comes before the initial apply, and there is
  exactly one initial apply when at least one usable event stands before the
  sentinel, and none otherwise.
\<close>

theorem scheduler_apply_then_changes:
  assumes "pending w = None" and "always_invoked env"
  shows "fst (event_loop env interface latency start_time False rows w) = Inr ()
         \<and> commands (out (snd (event_loop env interface latency start_time False rows w))) =
             commands (out w) @
             (case map snd (played_events env rows) of
                [] \<Rightarrow> []
              | rate # rates \<Rightarrow>
                  [''sudo tc qdisc del dev '' @ interface @ '' root'',
                   ''sudo tc qdisc add dev '' @ interface @ '' root handle 1: htb default 10'',
                   ''sudo tc class add dev '' @ interface @ '' parent 1: classid 1:1 htb rate ''
                     @ str_int rate @ ''kbit burst 15000'',
                   ''sudo tc qdisc add dev '' @ interface @ '' parent 1:1 handle 10: netem delay ''
                     @ latency,
                   ''sudo tc filter add dev '' @ interface @
                     '' parent 1: protocol ip prio 1 u32 match ip src 0.0.0.0/0 match ip dst 0.0.0.0/0 flowid 1:1'']
                  @ map (\<lambda>r. ''sudo tc class change dev '' @ interface @
                                '' parent 1: classid 1:1 htb rate '' @ str_int r @ ''kbit burst 15000'')
                      rates)"
  using event_loop_commands [OF assms(2,1), of interface latency start_time False rows]
  by (simp add: scheduled_commands_def initial_apply_actions_def rate_change_command_def
      split: list.splits)

theorem scheduler_apply_then_changes_witness:
  "commands (out (snd (event_loop (demo_env []) ''eth0'' ''50ms'' 0 False
       [[''0'', ''500''], [''0'', ''800'']] (initial_world 0 None)))) =
     [''sudo tc qdisc del dev eth0 root'',
      ''sudo tc qdisc add dev eth0 root handle 1: htb default 10'',
      ''sudo tc class add dev eth0 parent 1: classid 1:1 htb rate 500kbit burst 15000'',
      ''sudo tc qdisc add dev eth0 parent 1:1 handle 10: netem delay 50ms'',
      ''sudo tc filter add dev eth0 parent 1: protocol ip prio 1 u32 match ip src 0.0.0.0/0 match ip dst 0.0.0.0/0 flowid 1:1'',
      ''sudo tc class change dev eth0 parent 1: classid 1:1 htb rate 800kbit burst 15000'']"
  using scheduler_apply_then_changes [of "initial_world 0 None" "demo_env []" "''eth0''" "''50ms''" 0
      "[[''0'', ''500''], [''0'', ''800'']]"]
  by (simp add: demo_env_invoked played_two_rates str_int_500 str_int_800)

text \<open>
  C2 as stated fails on a trace whose first usable row is the sentinel: the
  trace \<open>0,-1\<close>, \<open>1,500\<close> has the non-sentinel usable event \<open>(1, 500)\<close>, and the loop
  runs no command at all, so there is no initial apply.
\<close>

theorem sentinel_first_no_initial_apply:
  "usable_events (demo_env []) [[''0'', ''-1''], [''1'', ''500'']] = [(0, -1), (1, 500)]
   \<and> commands (out (snd (event_loop (demo_env []) ''eth0'' ''50ms'' 0 False
         [[''0'', ''-1''], [''1'', ''500'']] (initial_world 0 None)))) = []"
  using event_loop_commands [OF demo_env_invoked, of "initial_world 0 None" "[]" "''eth0''"
      "''50ms''" 0 False "[[''0'', ''-1''], [''1'', ''500'']]"]
  by (simp add: played_sentinel_first scheduled_commands_def not_skipped_digit parse_0_m1 parse_1_500)

subsection \<open>The clock\<close>

lemma steadyD:
  "steady m \<Longrightarrow> pending w = None \<Longrightarrow> pending (snd (m w)) = None \<and> now w \<le> now (snd (m w))"
  by (simp add: steady_def)

lemma steady_print: "steady (print m)"
  by (simp add: steady_def print_quiet)

lemma steady_sleep: "0 \<le> d \<Longrightarrow> steady (sleep d)"
  by (simp add: steady_def sleep_quiet)

lemma steady_run_tc_command: "\<forall>n. 0 \<le> tc_time env n \<Longrightarrow> steady (run_tc_command env c)"
  by (simp add: steady_def run_tc_command_quiet)

lemma steady_run_all:
  assumes "\<And>m. m \<in> set ms \<Longrightarrow> steady m"
  shows "steady (run_all ms)"
  using assms
proof (induction ms)
  case Nil
  then show ?case by (simp add: steady_def)
next
  case (Cons m ms)
  have m: "steady m" and ms: "steady (run_all ms)"
    using Cons by simp_all
  show ?case
    unfolding steady_def
  proof (intro allI impI)
    fix w :: world
    assume q: "pending w = None"
    show "pending (snd (run_all (m # ms) w)) = None \<and> now w \<le> now (snd (run_all (m # ms) w))"
      using steadyD [OF m q] steadyD [OF ms, of "snd (m w)"]
      by (cases "m w") (auto split: sum.splits)
  qed
qed

lemma steady_change_bandwidth:
  "\<forall>n. 0 \<le> tc_time env n \<Longrightarrow> steady (change_bandwidth env i k)"
  unfolding change_bandwidth_def Let_def
  by (rule steady_run_all) (auto intro: steady_run_tc_command steady_print)

lemma apply_now:
  assumes "\<forall>n. 0 \<le> tc_time env n" and "pending w = None"
  shows "now w \<le> now (snd (apply_bandwidth_latency env i k l w))"
proof -
  have "steady (run_all
        [run_tc_command env (''qdisc del dev '' @ i @ '' root''),
         sleep (1 / 10),
         run_tc_command env (''qdisc add dev '' @ i @ '' root handle 1: htb default 10''),
         run_tc_command env (''class add dev '' @ i @ '' parent 1: classid 1:1 htb rate ''
            @ str_int k @ ''kbit burst '' @ str_int DEFAULT_BURST_BYTES),
         run_tc_command env (''qdisc add dev '' @ i @ '' parent 1:1 handle 10: netem delay '' @ l),
         run_tc_command env (''filter add dev '' @ i
            @ '' parent 1: protocol ip prio 1 u32 match ip src 0.0.0.0/0 match ip dst ''
            @ ''0.0.0.0/0 flowid 1:1''),
         print (Initial_setup_complete i k l)])"
    by (rule steady_run_all)
      (use assms(1) in \<open>auto intro: steady_run_tc_command steady_sleep steady_print\<close>)
  from steadyD [OF this, of "w\<lparr>target_interface := Some i\<rparr>"] assms(2) show ?thesis
    by (simp add: apply_bandwidth_latency_def Let_def del: run_all.simps)
qed

lemma apply_now_demo:
  "pending w = None \<Longrightarrow>
   now (snd (apply_bandwidth_latency (demo_env R) i k l w)) = now w + 1 / 10"
  by (simp add: apply_bandwidth_latency_def run_tc_command_quiet print_quiet sleep_quiet demo_env_def)

lemma waited_past: "st + t \<le> now w \<Longrightarrow> waited st t w = w"
  by (simp add: waited_def)

subsection \<open>The end-of-trace sentinel\<close>

text \<open>
  C5. When the loop, in a run that no signal interrupts, reaches a row whose
  rate is negative, it waits until the row's offset if that is in the future
  and then stops: the rows after it are never looked at, no command is run for
  it (its value is never applied as a rate), and the clock is at or after the
  row's offset when the loop ends. The trace \<open>0,1000\<close> then \<open>2,-1\<close>, started at
  time 0 with commands that take no time: one initial apply at rate 1000, the
  wait of 1.9 s that is left until offset 2 s, no further command, and the loop
  ends at time 2.
\<close>

theorem sentinel_stops_processing:
  assumes "\<not> skipped_row row" and "parse_row env row = Some (t, k)" and "k < 0"
    and "pending w = None"
  shows "event_loop env i l st flag (row # rows) w = event_loop env i l st flag [row] w
         \<and> fst (event_loop env i l st flag (row # rows) w) = Inr ()
         \<and> actions (out (snd (event_loop env i l st flag (row # rows) w))) =
             actions (out w) @ (if now w < st + t then [Sleep (st + t - now w)] else [])
         \<and> st + t \<le> now (snd (event_loop env i l st flag (row # rows) w))
         \<and> actions (out (snd (event_loop (demo_env []) ''eth0'' ''50ms'' 0 False
               [[''0'', ''1000''], [''2'', ''-1'']] (initial_world 0 None)))) =
             [Exec ''sudo tc qdisc del dev eth0 root'',
              Sleep (1 / 10),
              Exec ''sudo tc qdisc add dev eth0 root handle 1: htb default 10'',
              Exec ''sudo tc class add dev eth0 parent 1: classid 1:1 htb rate 1000kbit burst 15000'',
              Exec ''sudo tc qdisc add dev eth0 parent 1:1 handle 10: netem delay 50ms'',
              Exec ''sudo tc filter add dev eth0 parent 1: protocol ip prio 1 u32 match ip src 0.0.0.0/0 match ip dst 0.0.0.0/0 flowid 1:1'',
              Sleep (19 / 10)]
         \<and> now (snd (event_loop (demo_env []) ''eth0'' ''50ms'' 0 False
               [[''0'', ''1000''], [''2'', ''-1'']] (initial_world 0 None))) = 0 + 2"
proof -
  have gen: "event_loop env i l st flag (row # rows') w =
     (Inr (), (waited st t w)\<lparr>out := out (waited st t w) @ [Print End_of_trace]\<rparr>)" for rows'
    using event_loop_sentinel [OF assms] .
  let ?w0 = "initial_world 0 None"
  let ?w1 = "snd (apply_bandwidth_latency (demo_env []) ''eth0'' 1000 ''50ms'' ?w0)"
  have w0: "waited 0 0 ?w0 = ?w0" by (simp add: waited_def)
  have a1: "fst (apply_bandwidth_latency (demo_env []) ''eth0'' 1000 ''50ms'' ?w0) = Inr ()"
    and a2: "actions (out ?w1) = initial_apply_actions ''eth0'' 1000 ''50ms''"
    and a3: "pending ?w1 = None"
    using apply_quiet [of ?w0 "demo_env []" "''eth0''" 1000 "''50ms''"] demo_env_invoked
    by simp_all
  have a4: "now ?w1 = 1 / 10"
    using apply_now_demo [of ?w0 "[]" "''eth0''" 1000 "''50ms''"] by simp
  have run: "event_loop (demo_env []) ''eth0'' ''50ms'' 0 False
               [[''0'', ''1000''], [''2'', ''-1'']] ?w0 =
     (Inr (), (waited 0 2 ?w1)\<lparr>out := out (waited 0 2 ?w1) @ [Print End_of_trace]\<rparr>)"
    using event_loop_first [of "[''0'', ''1000'']" "demo_env []" 0 1000 ?w0 "''eth0''" "''50ms''" 0
        "[[''2'', ''-1'']]"]
      event_loop_sentinel [of "[''2'', ''-1'']" "demo_env []" 2 "-1" ?w1 "''eth0''" "''50ms''" 0 True "[]"]
      a1 a3
    by (simp add: not_skipped_digit parse_0_1000 parse_2_m1 w0 and_then_alt del: event_loop.simps)
  show ?thesis
    using gen [of rows] gen [of "[]"] a2 a4
    by (simp add: run actions_waited now_waited initial_apply_actions_def str_int_1000
        del: event_loop.simps)
qed

theorem sentinel_stops_processing_witness:
  "fst (event_loop (demo_env []) ''eth0'' ''50ms'' 0 True [[''2'', ''-1''], [''3'', ''500'']]
          (initial_world 0 None)) = Inr ()
   \<and> actions (out (snd (event_loop (demo_env []) ''eth0'' ''50ms'' 0 True
         [[''2'', ''-1''], [''3'', ''500'']] (initial_world 0 None)))) = [Sleep 2]"
proof -
  have h: "\<not> skipped_row [''2'', ''-1'']" "parse_row (demo_env []) [''2'', ''-1''] = Some (2, -1)"
    "(-1::int) < 0" "pending (initial_world 0 None) = None"
    by (simp_all add: not_skipped_digit parse_2_m1)
  note th = sentinel_stops_processing [OF h, of "''eth0''" "''50ms''" 0 True "[[''3'', ''500'']]"]
  from th [THEN conjunct2, THEN conjunct1] th [THEN conjunct2, THEN conjunct2, THEN conjunct1]
  show ?thesis by (simp del: event_loop.simps)
qed

subsection \<open>Waiting for an event\<close>

lemma event_loop_event:
  assumes "\<not> skipped_row row" and "parse_row env row = Some (t, k)" and "0 \<le> k"
    and "pending w = None"
  shows "event_loop env i l st flag (row # rows) w =
     and_then (if flag then change_bandwidth env i k else apply_bandwidth_latency env i k l)
       (\<lambda>_. event_loop env i l st True rows) (waited st t w)"
  using event_loop_first [OF assms, of i l st rows] event_loop_next [OF assms, of i l st rows]
  by (cases flag) (simp_all del: event_loop.simps)

lemma dispatch_quiet:
  assumes "pending w = None" and "always_invoked env" and "\<forall>n. 0 \<le> tc_time env n"
  shows "fst ((if flag then change_bandwidth env i k else apply_bandwidth_latency env i k l) w)
           = Inr ()"
    and "pending (snd ((if flag then change_bandwidth env i k
                        else apply_bandwidth_latency env i k l) w)) = None"
    and "now w \<le> now (snd ((if flag then change_bandwidth env i k
                               else apply_bandwidth_latency env i k l) w))"
    and "actions (out (snd ((if flag then change_bandwidth env i k
                             else apply_bandwidth_latency env i k l) w))) =
           actions (out w) @
           (if flag then [Exec (rate_change_command i k)] else initial_apply_actions i k l)"
  using change_bandwidth_fst [OF assms(1,2), of i k]
    change_bandwidth_quiet [OF assms(1), of env i k]
    steadyD [OF steady_change_bandwidth [OF assms(3)] assms(1), of i k]
    apply_quiet [OF assms(1,2), of i k l] apply_now [OF assms(3,1), of i k l]
  by simp_all

lemma demo_env_steady: "\<forall>n. 0 \<le> tc_time (demo_env R) n"
  by (simp add: demo_env_def)

text \<open>
  C6. \<open>start_time\<close> is read once, before the loop, and is a parameter of every
  iteration. For a usable event with a rate that is not negative, in a run that
  no signal interrupts: the loop dispatches the event (initial apply or rate
  change) from the world \<open>waited\<close>, which is the world after a sleep of exactly
  \<open>start_time + offset - now\<close>, the clock then at \<open>start_time + offset\<close>, when that
  instant is in the future, and the unchanged world, with no sleep, when the
  instant is now or past. Hence, with a clock that does not run backwards and
  subprocesses that start, two events of which the second has the same or a
  smaller offset are applied back to back: after the operation of the first
  comes the rate change of the second, with no sleep between them, and the loop
  goes on with the remaining rows. The trace \<open>0,500\<close> then \<open>0,800\<close> ends with the
  rate change to 800.
\<close>

theorem events_fire_when_due:
  assumes quiet: "pending w = None" and inv: "always_invoked env"
    and mono: "\<forall>n. 0 \<le> tc_time env n"
    and r1: "\<not> skipped_row r1" "parse_row env r1 = Some (t1, k1)" "0 \<le> k1"
    and r2: "\<not> skipped_row r2" "parse_row env r2 = Some (t2, k2)" "0 \<le> k2"
    and late: "t2 \<le> t1"
  shows "event_loop env i l st flag (r1 # rows) w =
           and_then (if flag then change_bandwidth env i k1 else apply_bandwidth_latency env i k1 l)
             (\<lambda>_. event_loop env i l st True rows) (waited st t1 w)
         \<and> (now w < st + t1 \<longrightarrow>
              waited st t1 w =
                w\<lparr>out := out w @ [Print (Sleeping_for (st + t1 - now w)), Sleep (st + t1 - now w)],
                  now := st + t1\<rparr>)
         \<and> (st + t1 \<le> now w \<longrightarrow> waited st t1 w = w)
         \<and> (\<exists>w2. event_loop env i l st flag (r1 # r2 # rows) w = event_loop env i l st True rows w2
                \<and> actions (out w2) =
                    actions (out w) @
                    (if now w < st + t1 then [Sleep (st + t1 - now w)] else []) @
                    (if flag then [Exec (rate_change_command i k1)]
                     else initial_apply_actions i k1 l) @
                    [Exec (rate_change_command i k2)])"
proof -
  let ?op = "if flag then change_bandwidth env i k1 else apply_bandwidth_latency env i k1 l"
  let ?w1 = "waited st t1 w"
  let ?w1' = "snd (?op ?w1)"
  let ?w2 = "snd (change_bandwidth env i k2 ?w1')"
  have q1: "pending ?w1 = None" using quiet by simp
  note d = dispatch_quiet [OF q1 inv mono, of flag i k1 l]
  have n1: "st + t2 \<le> now ?w1'"
    using d(3) late by (simp add: now_waited max_def split: if_splits)
  have step1: "event_loop env i l st flag (r1 # r2 # rows) w =
      event_loop env i l st True (r2 # rows) ?w1'"
    using event_loop_event [OF r1 quiet, of i l st flag "r2 # rows"] d(1)
    by (simp add: and_then_alt del: event_loop.simps)
  have step2: "event_loop env i l st True (r2 # rows) ?w1' = event_loop env i l st True rows ?w2"
    using event_loop_event [OF r2 d(2), of i l st True rows]
      change_bandwidth_fst [OF d(2) inv, of i k2]
    by (simp add: and_then_alt waited_past [OF n1] del: event_loop.simps)
  have acts: "actions (out ?w2) =
      actions (out w) @ (if now w < st + t1 then [Sleep (st + t1 - now w)] else []) @
      (if flag then [Exec (rate_change_command i k1)] else initial_apply_actions i k1 l) @
      [Exec (rate_change_command i k2)]"
    using change_bandwidth_quiet(1) [OF d(2), of env i k2] d(4)
    by (simp add: actions_waited)
  have last: "\<exists>w2. event_loop env i l st flag (r1 # r2 # rows) w = event_loop env i l st True rows w2
                \<and> actions (out w2) =
                    actions (out w) @
                    (if now w < st + t1 then [Sleep (st + t1 - now w)] else []) @
                    (if flag then [Exec (rate_change_command i k1)]
                     else initial_apply_actions i k1 l) @
                    [Exec (rate_change_command i k2)]"
    using step1 step2 acts by (intro exI [of _ ?w2]) (simp del: event_loop.simps)
  show ?thesis
    using event_loop_event [OF r1 quiet, of i l st flag rows] last
    by (simp add: waited_def del: event_loop.simps)
qed

theorem events_fire_when_due_witness:
  "actions (out (snd (event_loop (demo_env []) ''eth0'' ''50ms'' 0 False
       [[''0'', ''500''], [''0'', ''800'']] (initial_world 0 None)))) =
     [Exec ''sudo tc qdisc del dev eth0 root'',
      Sleep (1 / 10),
      Exec ''sudo tc qdisc add dev eth0 root handle 1: htb default 10'',
      Exec ''sudo tc class add dev eth0 parent 1: classid 1:1 htb rate 500kbit burst 15000'',
      Exec ''sudo tc qdisc add dev eth0 parent 1:1 handle 10: netem delay 50ms'',
      Exec ''sudo tc filter add dev eth0 parent 1: protocol ip prio 1 u32 match ip src 0.0.0.0/0 match ip dst 0.0.0.0/0 flowid 1:1'',
      Exec ''sudo tc class change dev eth0 parent 1: classid 1:1 htb rate 800kbit burst 15000'']"
proof -
  have h: "pending (initial_world 0 None) = None" "always_invoked (demo_env [])"
    "\<forall>n. 0 \<le> tc_time (demo_env []) n"
    "\<not> skipped_row [''0'', ''500'']" "parse_row (demo_env []) [''0'', ''500''] = Some (0, 500)"
    "(0::int) \<le> 500"
    "\<not> skipped_row [''0'', ''800'']" "parse_row (demo_env []) [''0'', ''800''] = Some (0, 800)"
    "(0::int) \<le> 800" "(0::rat) \<le> 0"
    by (simp_all add: demo_env_invoked demo_env_steady not_skipped_digit parse_0_500 parse_0_800)
  note th = events_fire_when_due [OF h, of "''eth0''" "''50ms''" 0 False "[]"]
  from th [THEN conjunct2, THEN conjunct2, THEN conjunct2]
  show ?thesis
    by (auto simp: initial_apply_actions_def rate_change_command_def str_int_500 str_int_800
        simp del: event_loop.simps simp add: event_loop.simps(1))
qed

subsection \<open>Traces without a usable row\<close>

lemma event_loop_unusable:
  "usable_events env rows = [] \<Longrightarrow> pending w = None \<Longrightarrow>
   event_loop env i l st flag rows w =
     (Inr (), w\<lparr>out := out w @ map (\<lambda>r. Print (Skipping_invalid_row r))
                                  (filter (\<lambda>r. \<not> skipped_row r) rows)\<rparr>)"
proof (induction rows arbitrary: w)
  case Nil
  then show ?case by simp
next
  case (Cons row rows)
  show ?case
  proof (cases "skipped_row row")
    case True
    then show ?thesis
      using Cons by (simp del: event_loop.simps add: event_loop_skip)
  next
    case False
    with Cons.prems have p: "parse_row env row = None" and u: "usable_events env rows = []"
      by (simp_all split: option.splits)
    show ?thesis
      using Cons.IH [OF u, of "w\<lparr>out := out w @ [Print (Skipping_invalid_row row)]\<rparr>"]
        False Cons.prems(2)
      by (simp add: event_loop_invalid [OF False p] del: event_loop.simps)
  qed
qed

lemma header_row:
  "rows_to_process [[''# Time (s)'', '' Throughput (kbps)'']] = Inr []"
  "rows_to_process [[''Time (s)'', ''Throughput (kbps)''], [''# c'']] = Inr [[''# c'']]"
  "rows_to_process [[''abc'', ''500'']] = Inr [[''abc'', ''500'']]"
  by (simp_all add: rows_to_process_def startswith_def strip_def isspace_def lower_def lower_char_def)

lemma skipped_blank: "skipped_row []"
  by (simp add: skipped_row_def)

lemma skipped_comment: "skipped_row [''# c'']"
  by (simp add: skipped_row_def startswith_def strip_def isspace_def)

lemma open_demo: "open_trace (demo_env R) ''trace.csv'' = Csv_rows R"
  by (simp add: demo_env_def)

text \<open>
  C4, as amended. The script tests for an empty trace before it filters: when
  no row is left after the header row is discarded, that is, the file is empty
  or is a header row alone, the body of the \<open>try\<close> prints the error and raises
  \<open>SystemExit(1)\<close>. When rows are left and none of them is usable (all are
  blank, comments or unparseable), there is no such failure: the loop prints
  the line for each unparseable row, runs nothing and ends normally.
\<close>

theorem trace_empty_before_filtering:
  assumes "pending w = None" and "open_trace env trace_file = Csv_rows all_rows"
  shows "(rows_to_process all_rows = Inr [] \<longrightarrow>
            try_body env i trace_file l st w =
              (Inl (SystemExit 1), w\<lparr>out := out w @ [Print Trace_empty]\<rparr>))
         \<and> (rows_to_process all_rows = Inr rows \<and> rows \<noteq> [] \<and> usable_events env rows = [] \<longrightarrow>
            try_body env i trace_file l st w =
              (Inr (), w\<lparr>out := out w @ map (\<lambda>r. Print (Skipping_invalid_row r))
                                           (filter (\<lambda>r. \<not> skipped_row r) rows)\<rparr>))
         \<and> (rows_to_process all_rows = Inr [] \<longleftrightarrow>
              all_rows = [] \<or>
              (\<exists>f fs. all_rows = [f # fs] \<and>
                 (startswith (strip f) ''#'' \<or> lower (strip f) = ''time (s)'')))"
proof -
  have a: "rows_to_process all_rows = Inr [] \<Longrightarrow>
      try_body env i trace_file l st w =
        (Inl (SystemExit 1), w\<lparr>out := out w @ [Print Trace_empty]\<rparr>)"
    using assms by (simp add: try_body_def and_then_def print_quiet raise_def)
  have b: "rows_to_process all_rows = Inr rows \<Longrightarrow> rows \<noteq> [] \<Longrightarrow> usable_events env rows = [] \<Longrightarrow>
      try_body env i trace_file l st w =
        (Inr (), w\<lparr>out := out w @ map (\<lambda>r. Print (Skipping_invalid_row r))
                                     (filter (\<lambda>r. \<not> skipped_row r) rows)\<rparr>)"
    using assms event_loop_unusable [of env rows w i l st False]
    by (simp add: try_body_def)
  have c: "rows_to_process all_rows = Inr [] \<longleftrightarrow>
              all_rows = [] \<or>
              (\<exists>f fs. all_rows = [f # fs] \<and>
                 (startswith (strip f) ''#'' \<or> lower (strip f) = ''time (s)''))"
    by (auto simp: rows_to_process_def split: list.splits)
  show ?thesis using a b c by blast
qed

theorem trace_empty_before_filtering_witness:
  "try_body (demo_env [[''# Time (s)'', '' Throughput (kbps)'']]) ''eth0'' ''trace.csv'' ''50ms'' 0
     (initial_world 0 None) =
     (Inl (SystemExit 1), (initial_world 0 None)\<lparr>out := [Print Trace_empty]\<rparr>)
   \<and> try_body (demo_env [[''abc'', ''500'']]) ''eth0'' ''trace.csv'' ''50ms'' 0
     (initial_world 0 None) =
     (Inr (), (initial_world 0 None)\<lparr>out := [Print (Skipping_invalid_row [''abc'', ''500''])]\<rparr>)"
proof -
  have q: "pending (initial_world 0 None) = None" by simp
  note t1 = trace_empty_before_filtering [of "initial_world 0 None"
      "demo_env [[''# Time (s)'', '' Throughput (kbps)'']]" "''trace.csv''"
      "[[''# Time (s)'', '' Throughput (kbps)'']]" "''eth0''" "''50ms''" 0 "[]", OF q open_demo]
  note t2 = trace_empty_before_filtering [of "initial_world 0 None"
      "demo_env [[''abc'', ''500'']]" "''trace.csv''"
      "[[''abc'', ''500'']]" "''eth0''" "''50ms''" 0 "[[''abc'', ''500'']]", OF q open_demo]
  from t1 [THEN conjunct1] t2 [THEN conjunct2, THEN conjunct1]
  show ?thesis
    by (simp add: header_row not_skipped_digit parse_abc_500)
qed

text \<open>
  C4 as stated fails on a file whose body is a malformed row only, and on a
  header followed by a comment only: no usable row is left in either, and the
  body of the \<open>try\<close> returns normally without the error.
\<close>

theorem unusable_rows_not_trace_empty:
  "usable_events (demo_env [[''abc'', ''500'']]) [[''abc'', ''500'']] = []
   \<and> try_body (demo_env [[''abc'', ''500'']]) ''eth0'' ''trace.csv'' ''50ms'' 0
       (initial_world 0 None) =
     (Inr (), (initial_world 0 None)\<lparr>out := [Print (Skipping_invalid_row [''abc'', ''500''])]\<rparr>)
   \<and> usable_events (demo_env [[''Time (s)'', ''Throughput (kbps)''], [''# c'']]) [[''# c'']] = []
   \<and> try_body (demo_env [[''Time (s)'', ''Throughput (kbps)''], [''# c'']]) ''eth0'' ''trace.csv''
       ''50ms'' 0 (initial_world 0 None) =
     (Inr (), initial_world 0 None)"
  using event_loop_unusable [of "demo_env [[''abc'', ''500'']]" "[[''abc'', ''500'']]"
      "initial_world 0 None" "''eth0''" "''50ms''" 0 False]
    event_loop_unusable [of "demo_env [[''Time (s)'', ''Throughput (kbps)''], [''# c'']]" "[[''# c'']]"
      "initial_world 0 None" "''eth0''" "''50ms''" 0 False]
  by (simp add: try_body_def open_demo header_row not_skipped_digit parse_abc_500 skipped_comment
      initial_world_def del: event_loop.simps)

subsection \<open>A blank first line\<close>

text \<open>
  C9. A blank row is skipped by the loop, but not by the header test before
  it: when the first line of the file is blank, \<open>all_rows[0][0]\<close> raises
  \<open>IndexError\<close>, the \<open>except Exception\<close> clause prints its message, and no row
  of the trace is processed. The same two rows in the other order are processed
  as the claim says.
\<close>

theorem blank_first_row_aborts_trace:
  "try_body (demo_env [[], [''0'', ''500'']]) ''eth0'' ''trace.csv'' ''50ms'' 0
     (initial_world 0 None) = (Inl PyException, initial_world 0 None)
   \<and> main (demo_env [[], [''0'', ''500'']]) [''bandwidth_control.py'', ''eth0'', ''trace.csv'']
       (initial_world 0 None) =
     (Exit 0, \<lparr>target_interface = None, now = 0,
        out = [Print (Starting ''eth0''), Print (Using_trace ''trace.csv''),
               Print (Applying_latency ''50ms''), Print Unexpected_error],
        pending = None\<rparr>)
   \<and> commands (out (snd (event_loop (demo_env [[''0'', ''500''], []]) ''eth0'' ''50ms'' 0 False
         [[''0'', ''500''], []] (initial_world 0 None)))) =
       [''sudo tc qdisc del dev eth0 root'',
        ''sudo tc qdisc add dev eth0 root handle 1: htb default 10'',
        ''sudo tc class add dev eth0 parent 1: classid 1:1 htb rate 500kbit burst 15000'',
        ''sudo tc qdisc add dev eth0 parent 1:1 handle 10: netem delay 50ms'',
        ''sudo tc filter add dev eth0 parent 1: protocol ip prio 1 u32 match ip src 0.0.0.0/0 match ip dst 0.0.0.0/0 flowid 1:1'']"
proof -
  have p: "played_events (demo_env [[''0'', ''500''], []]) [[''0'', ''500''], []] = [(0, 500)]"
    by (simp add: played_events_Cons not_skipped_digit parse_0_500 skipped_blank)
  have a: "try_body (demo_env [[], [''0'', ''500'']]) ''eth0'' ''trace.csv'' ''50ms'' 0
     (initial_world 0 None) = (Inl PyException, initial_world 0 None)"
    by (simp add: try_body_def open_demo rows_to_process_def raise_def)
  have b: "main (demo_env [[], [''0'', ''500'']]) [''bandwidth_control.py'', ''eth0'', ''trace.csv'']
       (initial_world 0 None) =
     (Exit 0, \<lparr>target_interface = None, now = 0,
        out = [Print (Starting ''eth0''), Print (Using_trace ''trace.csv''),
               Print (Applying_latency ''50ms''), Print Unexpected_error],
        pending = None\<rparr>)"
    by (simp add: run_defs demo_defs)
  have c: "commands (out (snd (event_loop (demo_env [[''0'', ''500''], []]) ''eth0'' ''50ms'' 0 False
         [[''0'', ''500''], []] (initial_world 0 None)))) =
       [''sudo tc qdisc del dev eth0 root'',
        ''sudo tc qdisc add dev eth0 root handle 1: htb default 10'',
        ''sudo tc class add dev eth0 parent 1: classid 1:1 htb rate 500kbit burst 15000'',
        ''sudo tc qdisc add dev eth0 parent 1:1 handle 10: netem delay 50ms'',
        ''sudo tc filter add dev eth0 parent 1: protocol ip prio 1 u32 match ip src 0.0.0.0/0 match ip dst 0.0.0.0/0 flowid 1:1'']"
    using event_loop_commands [OF demo_env_invoked, of "initial_world 0 None" "[[''0'', ''500''], []]"
        "''eth0''" "''50ms''" 0 False "[[''0'', ''500''], []]"]
    by (simp add: p scheduled_commands_def initial_apply_actions_def str_int_500
        del: event_loop.simps)
  show ?thesis using a b c by blast
qed

subsection \<open>Parts of the script that announce no teardown\<close>

lemma calmD:
  "calm m \<Longrightarrow> pending w = None \<Longrightarrow>
   pending (snd (m w)) = None \<and> fst (m w) \<noteq> Inl Signal
   \<and> teardowns (out (snd (m w))) = teardowns (out w)"
  by (simp add: calm_def)

lemma calm_print: "teardowns [Print m] = 0 \<Longrightarrow> calm (print m)"
  by (simp add: calm_def print_quiet)

lemma calm_sleep: "calm (sleep d)"
  by (simp add: calm_def sleep_quiet)

lemma calm_raise: "e \<noteq> Signal \<Longrightarrow> calm (raise e)"
  by (simp add: calm_def raise_def)

lemma calm_run_tc_command: "calm (run_tc_command env c)"
  by (simp add: calm_def run_tc_command_quiet)

lemma calm_and_then:
  assumes "calm m" and "\<And>x. calm (f x)"
  shows "calm (and_then m f)"
  unfolding calm_def
proof (intro allI impI)
  fix w :: world
  assume q: "pending w = None"
  show "pending (snd (and_then m f w)) = None \<and> fst (and_then m f w) \<noteq> Inl Signal
        \<and> teardowns (out (snd (and_then m f w))) = teardowns (out w)"
  proof (cases "fst (m w)")
    case (Inl e)
    then show ?thesis using calmD [OF assms(1) q] by (simp add: and_then_alt)
  next
    case (Inr x)
    then show ?thesis
      using calmD [OF assms(1) q] calmD [OF assms(2), of "snd (m w)" x]
      by (simp add: and_then_alt)
  qed
qed

lemma calm_run_all:
  assumes "\<And>m. m \<in> set ms \<Longrightarrow> calm m"
  shows "calm (run_all ms)"
  using assms
proof (induction ms)
  case Nil
  then show ?case by (simp add: calm_def)
next
  case (Cons m ms)
  have m: "calm m" and ms: "calm (run_all ms)"
    using Cons by simp_all
  show ?case
    unfolding calm_def
  proof (intro allI impI)
    fix w :: world
    assume q: "pending w = None"
    show "pending (snd (run_all (m # ms) w)) = None \<and> fst (run_all (m # ms) w) \<noteq> Inl Signal
          \<and> teardowns (out (snd (run_all (m # ms) w))) = teardowns (out w)"
      using calmD [OF m q] calmD [OF ms, of "snd (m w)"]
      by (cases "m w") (auto split: sum.splits)
  qed
qed

lemma calm_change_bandwidth: "calm (change_bandwidth env i k)"
  unfolding change_bandwidth_def Let_def
  by (rule calm_run_all) (auto intro: calm_run_tc_command calm_print)

lemma calm_apply: "calm (apply_bandwidth_latency env i k l)"
proof -
  have c: "calm (run_all
        [run_tc_command env (''qdisc del dev '' @ i @ '' root''),
         sleep (1 / 10),
         run_tc_command env (''qdisc add dev '' @ i @ '' root handle 1: htb default 10''),
         run_tc_command env (''class add dev '' @ i @ '' parent 1: classid 1:1 htb rate ''
            @ str_int k @ ''kbit burst '' @ str_int DEFAULT_BURST_BYTES),
         run_tc_command env (''qdisc add dev '' @ i @ '' parent 1:1 handle 10: netem delay '' @ l),
         run_tc_command env (''filter add dev '' @ i
            @ '' parent 1: protocol ip prio 1 u32 match ip src 0.0.0.0/0 match ip dst ''
            @ ''0.0.0.0/0 flowid 1:1''),
         print (Initial_setup_complete i k l)])"
    by (rule calm_run_all) (auto intro: calm_run_tc_command calm_sleep calm_print)
  show ?thesis
    unfolding calm_def
  proof (intro allI impI)
    fix w :: world
    assume q: "pending w = None"
    from calmD [OF c, of "w\<lparr>target_interface := Some i\<rparr>"] q
    show "pending (snd (apply_bandwidth_latency env i k l w)) = None
          \<and> fst (apply_bandwidth_latency env i k l w) \<noteq> Inl Signal
          \<and> teardowns (out (snd (apply_bandwidth_latency env i k l w))) = teardowns (out w)"
      by (simp add: apply_bandwidth_latency_def Let_def del: run_all.simps)
  qed
qed

lemma calm_event_loop: "calm (event_loop env i l st flag rows)"
proof (induction rows arbitrary: flag)
  case Nil
  then show ?case by (simp add: calm_def)
next
  case (Cons row rows)
  show ?case
    unfolding calm_def
  proof (intro allI impI)
    fix w :: world
    assume q: "pending w = None"
    let ?goal = "pending (snd (event_loop env i l st flag (row # rows) w)) = None
        \<and> fst (event_loop env i l st flag (row # rows) w) \<noteq> Inl Signal
        \<and> teardowns (out (snd (event_loop env i l st flag (row # rows) w))) = teardowns (out w)"
    show ?goal
    proof (cases "skipped_row row")
      case True
      then show ?thesis
        using calmD [OF Cons.IH q, of flag] by (simp add: event_loop_skip del: event_loop.simps)
    next
      case ns: False
      show ?thesis
      proof (cases "parse_row env row")
        case None
        then show ?thesis
          using calmD [OF Cons.IH, of "w\<lparr>out := out w @ [Print (Skipping_invalid_row row)]\<rparr>" flag] q
          by (simp add: event_loop_invalid [OF ns None q] del: event_loop.simps)
      next
        case (Some ev)
        obtain t k where ev: "ev = (t, k)" by (cases ev)
        show ?thesis
        proof (cases "k < 0")
          case True
          then show ?thesis
            using event_loop_sentinel [OF ns Some [unfolded ev] True q, of i l st flag rows] q
            by (simp del: event_loop.simps)
        next
          case False
          then have k: "0 \<le> k" by simp
          have q1: "pending (waited st t w) = None" using q by simp
          have "calm (and_then (if flag then change_bandwidth env i k
                                else apply_bandwidth_latency env i k l)
                       (\<lambda>_. event_loop env i l st True rows))"
            by (rule calm_and_then) (auto intro: calm_change_bandwidth calm_apply Cons.IH)
          from calmD [OF this q1] show ?thesis
            by (simp add: event_loop_event [OF ns Some [unfolded ev] k q] del: event_loop.simps)
        qed
      qed
    qed
  qed
qed

lemma calm_try_body: "calm (try_body env i f l st)"
  unfolding try_body_def
  by (auto split: trace_source.splits sum.splits
      intro!: calm_raise calm_and_then calm_print calm_event_loop)
    (auto simp: rows_to_process_def split: list.splits if_splits)

subsection \<open>A whole run that no signal interrupts\<close>

lemma deliver_id: "fst r \<noteq> Inl Signal \<Longrightarrow> deliver env r = r"
  by (cases r) (auto simp: deliver_def split: sum.splits exn.splits)

lemma try_except_quiet:
  assumes "pending w = None"
  shows "pending (snd (try_except env i f l w)) = None"
    and "teardowns (out (snd (try_except env i f l w))) = teardowns (out w)"
    and "fst (try_except env i f l w) \<noteq> Inl Signal"
proof -
  let ?r1 = "try_body env i f l (now w) w"
  note c1 = calmD [OF calm_try_body assms, of env i f l "now w"]
  have d1: "deliver env ?r1 = ?r1" using c1 by (simp add: deliver_id)
  let ?r2 = "except_clauses f ?r1"
  have c2: "pending (snd ?r2) = None \<and> fst ?r2 \<noteq> Inl Signal
      \<and> teardowns (out (snd ?r2)) = teardowns (out w)"
  proof (cases ?r1)
    case (Pair a w1)
    then have w1: "pending w1 = None" "teardowns (out w1) = teardowns (out w)" "a \<noteq> Inl Signal"
      using c1 by simp_all
    show ?thesis
      using w1 Pair
      by (auto simp: except_clauses_def and_then_def print_quiet raise_def
          split: sum.splits exn.splits)
  qed
  have d2: "deliver env ?r2 = ?r2" using c2 by (simp add: deliver_id)
  show "pending (snd (try_except env i f l w)) = None"
    and "teardowns (out (snd (try_except env i f l w))) = teardowns (out w)"
    and "fst (try_except env i f l w) \<noteq> Inl Signal"
    using c2 by (simp_all add: try_except_def d1 d2)
qed

lemma cleanup_teardowns:
  "pending w = None \<Longrightarrow>
   teardowns (out (snd (cleanup_tc env w))) =
     teardowns (out w) + (if truthy (target_interface w) then 1 else 0)"
  by (simp add: cleanup_tc_def and_then_def run_tc_command_quiet print_quiet raise_def)

lemma deliver_finally_quiet:
  assumes "pending (snd r) = None"
  shows "deliver env (finally_cleanup env r) = cleanup_tc env (snd r)"
proof -
  have f: "finally_cleanup env r = cleanup_tc env (snd r)"
    using cleanup_quiet(1) [OF assms, of env]
    by (cases "cleanup_tc env (snd r)") (auto simp: finally_cleanup_def)
  show ?thesis
    using cleanup_quiet(1) [OF assms, of env] by (simp add: f deliver_id)
qed

lemma main_quiet:
  assumes "pending w = None" and "3 \<le> length argv" and "length argv \<le> 4"
  shows "main env argv w =
     (Exit 0, snd (cleanup_tc env (snd (try_except env (argv ! 1) (argv ! 2) (latency_of_argv argv)
        (w\<lparr>out := out w @ [Print (Starting (argv ! 1)), Print (Using_trace (argv ! 2)),
                            Print (Applying_latency (latency_of_argv argv))]\<rparr>)))))"
proof -
  let ?w1 = "w\<lparr>out := out w @ [Print (Starting (argv ! 1)), Print (Using_trace (argv ! 2)),
                            Print (Applying_latency (latency_of_argv argv))]\<rparr>"
  let ?r = "try_except env (argv ! 1) (argv ! 2) (latency_of_argv argv) ?w1"
  have q1: "pending ?w1 = None" using assms(1) by simp
  note t = try_except_quiet [OF q1, of env "argv ! 1" "argv ! 2" "latency_of_argv argv"]
  have d: "deliver env (finally_cleanup env ?r) = cleanup_tc env (snd ?r)"
    using deliver_finally_quiet [OF t(1)] .
  have p: "deliver env (run_all [print (Starting (argv ! 1)), print (Using_trace (argv ! 2)),
                    print (Applying_latency (latency_of_argv argv))] w) = (Inr (), ?w1)"
    using assms(1) by (simp add: print_quiet deliver_def)
  have "main env argv w = (exit_status (fst (cleanup_tc env (snd ?r))), snd (cleanup_tc env (snd ?r)))"
    using assms(2,3) p d unfolding main_def Let_def by (simp del: run_all.simps)
  then show ?thesis
    using cleanup_quiet(1) [OF t(1), of env] by (simp add: exit_status_def)
qed

subsection \<open>A run that a signal interrupts during the initial apply\<close>

lemma emit_count:
  "pending w = Some n \<Longrightarrow> n \<noteq> 0 \<Longrightarrow>
   emit e w = (Inr (), w\<lparr>out := out w @ [e], pending := Some (n - 1)\<rparr>)"
  by (cases n) (simp_all add: emit_def)

lemma emit_signal: "pending w = Some 0 \<Longrightarrow> emit e w = (Inl Signal, w\<lparr>pending := None\<rparr>)"
  by (simp add: emit_def)

lemma demo_env_fields [simp]:
  "subprocess (demo_env R) k c = Completed 0 [] []" "tc_time (demo_env R) k = 0"
  by (simp_all add: demo_env_def)

lemma rows_one: "rows_to_process [[''0'', ''500'']] = Inr [[''0'', ''500'']]"
  "rows_to_process [[''0'', ''-1'']] = Inr [[''0'', ''-1'']]"
  by (simp_all add: rows_to_process_def startswith_def strip_def isspace_def lower_def lower_char_def)

lemma interrupted_run_tc:
  "pending w = Some 2 \<Longrightarrow>
   run_tc_command (demo_env R) c w =
     (Inr (), w\<lparr>out := out w @ [Print (Executing (''sudo tc '' @ c)), Exec (''sudo tc '' @ c)],
               pending := Some 0\<rparr>)"
  by (simp add: run_tc_command_def Let_def and_then_def print_def emit_count)

lemma interrupted_apply:
  "pending w = Some 2 \<Longrightarrow>
   apply_bandwidth_latency (demo_env R) i k l w =
     (Inl Signal, w\<lparr>target_interface := Some i,
        out := out w @ [Print (Executing (''sudo tc qdisc del dev '' @ i @ '' root'')),
                        Exec (''sudo tc qdisc del dev '' @ i @ '' root'')],
        pending := None\<rparr>)"
  by (simp add: apply_bandwidth_latency_def Let_def interrupted_run_tc sleep_def and_then_def
      emit_signal)


lemma interrupted_loop:
  "pending w = Some 2 \<Longrightarrow> now w = 0 \<Longrightarrow>
   event_loop (demo_env R) i l 0 False [[''0'', ''500'']] w =
     (Inl Signal, w\<lparr>target_interface := Some i,
        out := out w @ [Print (Executing (''sudo tc qdisc del dev '' @ i @ '' root'')),
                        Exec (''sudo tc qdisc del dev '' @ i @ '' root'')],
        pending := None\<rparr>)"
  by (simp add: not_skipped_digit parse_0_500 Let_def and_then_def interrupted_apply)

lemma interrupted_try_except:
  assumes "pending w = Some 2" and "now w = 0"
  shows "try_except (demo_env [[''0'', ''500'']]) ''eth0'' ''trace.csv'' ''50ms'' w =
     (Inl (SystemExit 0), w\<lparr>target_interface := Some ''eth0'',
        out := out w @ [Print (Executing ''sudo tc qdisc del dev eth0 root''),
                        Exec ''sudo tc qdisc del dev eth0 root'',
                        Print (Cleaning_up ''eth0''),
                        Print (Executing ''sudo tc qdisc del dev eth0 root''),
                        Exec ''sudo tc qdisc del dev eth0 root'',
                        Print Cleanup_successful],
        pending := None\<rparr>)"
proof -
  have b: "try_body (demo_env [[''0'', ''500'']]) ''eth0'' ''trace.csv'' ''50ms'' (now w) w =
     (Inl Signal, w\<lparr>target_interface := Some ''eth0'',
        out := out w @ [Print (Executing ''sudo tc qdisc del dev eth0 root''),
                        Exec ''sudo tc qdisc del dev eth0 root''],
        pending := None\<rparr>)"
    using interrupted_loop [OF assms, of "[[''0'', ''500'']]" "''eth0''" "''50ms''"] assms(2)
    by (simp add: try_body_def open_demo rows_one del: event_loop.simps)
  show ?thesis
    unfolding try_except_def b
    by (simp add: deliver_def except_clauses_def cleanup_tc_def truthy_def and_then_def
        run_tc_command_quiet run_tc_effects_def print_quiet raise_def)
qed

lemma interrupted_run:
  "main (demo_env [[''0'', ''500'']]) [''bandwidth_control.py'', ''eth0'', ''trace.csv'']
     (initial_world 0 (Some 5)) =
   (Exit 0, \<lparr>target_interface = Some ''eth0'', now = 0,
      out = [Print (Starting ''eth0''), Print (Using_trace ''trace.csv''),
             Print (Applying_latency ''50ms''),
             Print (Executing ''sudo tc qdisc del dev eth0 root''),
             Exec ''sudo tc qdisc del dev eth0 root'',
             Print (Cleaning_up ''eth0''),
             Print (Executing ''sudo tc qdisc del dev eth0 root''),
             Exec ''sudo tc qdisc del dev eth0 root'',
             Print Cleanup_successful,
             Print (Cleaning_up ''eth0''),
             Print (Executing ''sudo tc qdisc del dev eth0 root''),
             Exec ''sudo tc qdisc del dev eth0 root'',
             Print Cleanup_successful],
      pending = None\<rparr>)"
proof -
  let ?w1 = "\<lparr>target_interface = None, now = 0,
        out = [Print (Starting ''eth0''), Print (Using_trace ''trace.csv''),
               Print (Applying_latency ''50ms'')], pending = Some 2\<rparr>"
  have p: "deliver (demo_env [[''0'', ''500'']])
             (run_all [print (Starting ''eth0''), print (Using_trace ''trace.csv''),
                    print (Applying_latency ''50ms'')] (initial_world 0 (Some 5))) =
     (Inr (), ?w1)"
    by (simp add: print_def emit_count initial_world_def deliver_def)
  have t: "try_except (demo_env [[''0'', ''500'']]) ''eth0'' ''trace.csv'' ''50ms'' ?w1 =
     (Inl (SystemExit 0), \<lparr>target_interface = Some ''eth0'', now = 0,
        out = [Print (Starting ''eth0''), Print (Using_trace ''trace.csv''),
               Print (Applying_latency ''50ms''),
               Print (Executing ''sudo tc qdisc del dev eth0 root''),
               Exec ''sudo tc qdisc del dev eth0 root'',
               Print (Cleaning_up ''eth0''),
               Print (Executing ''sudo tc qdisc del dev eth0 root''),
               Exec ''sudo tc qdisc del dev eth0 root'',
               Print Cleanup_successful],
        pending = None\<rparr>)"
    using interrupted_try_except [of ?w1] by simp
  have l: "latency_of_argv [''bandwidth_control.py'', ''eth0'', ''trace.csv''] = ''50ms''"
    by (simp add: latency_of_argv_def DEFAULT_LATENCY_MS_def)
  have f: "deliver (demo_env [[''0'', ''500'']]) (finally_cleanup (demo_env [[''0'', ''500'']])
      (try_except (demo_env [[''0'', ''500'']]) ''eth0'' ''trace.csv'' ''50ms'' ?w1)) =
     (Inl (SystemExit 0), \<lparr>target_interface = Some ''eth0'', now = 0,
      out = [Print (Starting ''eth0''), Print (Using_trace ''trace.csv''),
             Print (Applying_latency ''50ms''),
             Print (Executing ''sudo tc qdisc del dev eth0 root''),
             Exec ''sudo tc qdisc del dev eth0 root'',
             Print (Cleaning_up ''eth0''),
             Print (Executing ''sudo tc qdisc del dev eth0 root''),
             Exec ''sudo tc qdisc del dev eth0 root'',
             Print Cleanup_successful,
             Print (Cleaning_up ''eth0''),
             Print (Executing ''sudo tc qdisc del dev eth0 root''),
             Exec ''sudo tc qdisc del dev eth0 root'',
             Print Cleanup_successful],
      pending = None\<rparr>)"
    unfolding t
    by (simp add: deliver_def finally_cleanup_def cleanup_tc_def truthy_def and_then_def
        run_tc_command_quiet run_tc_effects_def print_quiet raise_def)
  show ?thesis
    using p f unfolding main_def Let_def l
    by (simp add: exit_status_def del: run_all.simps)
qed

subsection \<open>The teardown at the end of a run\<close>

lemma usage_quiet:
  "pending w = None \<Longrightarrow> length argv < 3 \<or> 4 < length argv \<Longrightarrow>
   main env argv w = (Exit 1, w\<lparr>out := out w @ [Print Usage, Print Usage_example]\<rparr>)"
  by (auto simp: main_def print_quiet)

lemma argv3 [simp]:
  "[a, b, c] ! 1 = b" "[a, b, c] ! 2 = c" "latency_of_argv [a, b, c] = ''50ms''"
  by (simp_all add: latency_of_argv_def DEFAULT_LATENCY_MS_def)

lemma try_except_normal:
  "fst (try_body env i f l (now w) w) = Inr () \<Longrightarrow>
   try_except env i f l w = try_body env i f l (now w) w"
  by (cases "try_body env i f l (now w) w")
    (simp add: try_except_def deliver_def except_clauses_def)

lemma sentinel_only_before_cleanup:
  "before_cleanup (demo_env [[''0'', ''-1'']]) [''bandwidth_control.py'', ''eth0'', ''trace.csv'']
     (initial_world 0 None) =
   \<lparr>target_interface = None, now = 0,
     out = [Print (Starting ''eth0''), Print (Using_trace ''trace.csv''),
            Print (Applying_latency ''50ms''), Print End_of_trace],
     pending = None\<rparr>"
proof -
  let ?w1 = "\<lparr>target_interface = None, now = 0,
     out = [Print (Starting ''eth0''), Print (Using_trace ''trace.csv''),
            Print (Applying_latency ''50ms'')], pending = None\<rparr>"
  have b: "try_body (demo_env [[''0'', ''-1'']]) ''eth0'' ''trace.csv'' ''50ms'' (now ?w1) ?w1 =
     (Inr (), ?w1\<lparr>out := out ?w1 @ [Print End_of_trace]\<rparr>)"
    using event_loop_sentinel [of "[''0'', ''-1'']" "demo_env [[''0'', ''-1'']]" 0 "-1" ?w1
        "''eth0''" "''50ms''" 0 False "[]"]
    by (simp add: try_body_def open_demo rows_one not_skipped_digit parse_0_m1 waited_def
        del: event_loop.simps)
  show ?thesis
    using try_except_normal [of "demo_env [[''0'', ''-1'']]" "''eth0''" "''trace.csv''" "''50ms''" ?w1] b
    by (simp add: before_cleanup_def initial_world_def)
qed

lemma one_row_before_cleanup:
  "target_interface (before_cleanup (demo_env [[''0'', ''500'']])
      [''bandwidth_control.py'', ''eth0'', ''trace.csv''] (initial_world 0 None)) = Some ''eth0''"
  "actions (out (before_cleanup (demo_env [[''0'', ''500'']])
      [''bandwidth_control.py'', ''eth0'', ''trace.csv''] (initial_world 0 None))) =
     initial_apply_actions ''eth0'' 500 ''50ms''"
proof -
  let ?env = "demo_env [[''0'', ''500'']]"
  let ?w1 = "\<lparr>target_interface = None, now = 0,
     out = [Print (Starting ''eth0''), Print (Using_trace ''trace.csv''),
            Print (Applying_latency ''50ms'')], pending = None\<rparr>"
  have q: "pending ?w1 = None" by simp
  note a = apply_quiet [OF q demo_env_invoked, of "[[''0'', ''500'']]" "''eth0''" 500 "''50ms''"]
  have b: "try_body ?env ''eth0'' ''trace.csv'' ''50ms'' (now ?w1) ?w1 =
     (Inr (), snd (apply_bandwidth_latency ?env ''eth0'' 500 ''50ms'' ?w1))"
    using event_loop_first [of "[''0'', ''500'']" ?env 0 500 ?w1 "''eth0''" "''50ms''" 0 "[]"] a(1)
    by (simp del: event_loop.simps add: try_body_def open_demo rows_one not_skipped_digit
        parse_0_500 waited_def and_then_alt event_loop.simps(1))
  have e: "before_cleanup ?env [''bandwidth_control.py'', ''eth0'', ''trace.csv'']
            (initial_world 0 None) = snd (apply_bandwidth_latency ?env ''eth0'' 500 ''50ms'' ?w1)"
    using try_except_normal [of ?env "''eth0''" "''trace.csv''" "''50ms''" ?w1] b
    by (simp add: before_cleanup_def initial_world_def)
  show "target_interface (before_cleanup ?env
      [''bandwidth_control.py'', ''eth0'', ''trace.csv''] (initial_world 0 None)) = Some ''eth0''"
    using a(4) by (simp add: e)
  show "actions (out (before_cleanup ?env
      [''bandwidth_control.py'', ''eth0'', ''trace.csv''] (initial_world 0 None))) =
     initial_apply_actions ''eth0'' 500 ''50ms''"
    using a(2) by (simp add: e)
qed

text \<open>
  C1, as amended. A run that passes the argument check and that no signal
  interrupts, however its \<open>try\<close> block ends (trace exhausted, sentinel, trace
  file missing or empty, an exception), calls \<open>cleanup_tc\<close> exactly once, as its
  last action, from the world \<open>before_cleanup\<close>, and exits with status 0. No
  teardown is announced before that call. The call announces and runs the
  delete of the root qdisc once when \<open>target_interface\<close> is set (to a non-empty
  name, by an initial apply) and does nothing when it is not. \<open>cleanup_tc\<close> leaves
  \<open>target_interface\<close> as it is, so a second call right after the first ends the
  same way and runs the same delete again (or again nothing). A run that a signal
  interrupts can tear down twice: when the signal arrives during the initial
  apply of the trace \<open>0,500\<close>, the handler runs \<open>cleanup_tc\<close>, its \<open>SystemExit\<close>
  leaves the \<open>try\<close> block, and the \<open>finally\<close> clause runs \<open>cleanup_tc\<close> again.
\<close>

theorem cleanup_once_when_not_interrupted:
  assumes "pending w = None" and "3 \<le> length argv" and "length argv \<le> 4"
    and "pending v = None"
  shows "main env argv w = (Exit 0, snd (cleanup_tc env (before_cleanup env argv w)))
         \<and> teardowns (out (before_cleanup env argv w)) = teardowns (out w)
         \<and> teardowns (out (snd (main env argv w))) =
             teardowns (out w) +
             (if truthy (target_interface (before_cleanup env argv w)) then 1 else 0)
         \<and> actions (out (snd (main env argv w))) =
             actions (out (before_cleanup env argv w)) @
             (if truthy (target_interface (before_cleanup env argv w))
              then [Exec (''sudo tc qdisc del dev ''
                          @ the (target_interface (before_cleanup env argv w)) @ '' root'')]
              else [])
         \<and> target_interface (snd (cleanup_tc env v)) = target_interface v
         \<and> fst (cleanup_tc env (snd (cleanup_tc env v))) = fst (cleanup_tc env v)
         \<and> actions (out (snd (cleanup_tc env (snd (cleanup_tc env v))))) =
             actions (out (snd (cleanup_tc env v))) @
             (if truthy (target_interface v)
              then [Exec (''sudo tc qdisc del dev '' @ the (target_interface v) @ '' root'')]
              else [])
         \<and> teardowns (out (snd (main (demo_env [[''0'', ''500'']])
               [''bandwidth_control.py'', ''eth0'', ''trace.csv''] (initial_world 0 (Some 5))))) = 2"
proof -
  let ?wb = "before_cleanup env argv w"
  let ?w1 = "w\<lparr>out := out w @ [Print (Starting (argv ! 1)), Print (Using_trace (argv ! 2)),
                            Print (Applying_latency (latency_of_argv argv))]\<rparr>"
  have q1: "pending ?w1 = None" using assms(1) by simp
  note t = try_except_quiet [OF q1, of env "argv ! 1" "argv ! 2" "latency_of_argv argv"]
  have qb: "pending ?wb = None" and tb: "teardowns (out ?wb) = teardowns (out w)"
    using t(1,2) by (simp_all add: before_cleanup_def)
  have m: "main env argv w = (Exit 0, snd (cleanup_tc env ?wb))"
    using main_quiet [OF assms(1,2,3), of env] by (simp add: before_cleanup_def)
  note c1 = cleanup_quiet [OF qb, of env]
  note c2 = cleanup_quiet [OF assms(4), of env]
  note c3 = cleanup_quiet [OF c2(5), of env]
  have i: "teardowns (out (snd (main (demo_env [[''0'', ''500'']])
               [''bandwidth_control.py'', ''eth0'', ''trace.csv''] (initial_world 0 (Some 5))))) = 2"
    by (simp add: interrupted_run)
  show ?thesis
    using m tb cleanup_teardowns [OF qb, of env] c1(2) c2(1,2,4) c3(1,2) i
    by (simp add: teardown_command_def)
qed

theorem cleanup_once_when_not_interrupted_witness:
  "teardowns (out (snd (main (demo_env [[''0'', ''500'']])
       [''bandwidth_control.py'', ''eth0'', ''trace.csv''] (initial_world 0 None)))) = 1
   \<and> actions (out (snd (main (demo_env [[''0'', ''500'']])
       [''bandwidth_control.py'', ''eth0'', ''trace.csv''] (initial_world 0 None)))) =
     [Exec ''sudo tc qdisc del dev eth0 root'',
      Sleep (1 / 10),
      Exec ''sudo tc qdisc add dev eth0 root handle 1: htb default 10'',
      Exec ''sudo tc class add dev eth0 parent 1: classid 1:1 htb rate 500kbit burst 15000'',
      Exec ''sudo tc qdisc add dev eth0 parent 1:1 handle 10: netem delay 50ms'',
      Exec ''sudo tc filter add dev eth0 parent 1: protocol ip prio 1 u32 match ip src 0.0.0.0/0 match ip dst 0.0.0.0/0 flowid 1:1'',
      Exec ''sudo tc qdisc del dev eth0 root'']"
proof -
  have h: "pending (initial_world 0 None) = None"
    "3 \<le> length [''bandwidth_control.py'', ''eth0'', ''trace.csv'']"
    "length [''bandwidth_control.py'', ''eth0'', ''trace.csv''] \<le> 4"
    "pending (initial_world 0 None) = None"
    by simp_all
  note th = cleanup_once_when_not_interrupted [OF h, of "demo_env [[''0'', ''500'']]"]
  from th [THEN conjunct2, THEN conjunct2, THEN conjunct1]
    th [THEN conjunct2, THEN conjunct2, THEN conjunct2, THEN conjunct1]
  show ?thesis
    by (simp add: one_row_before_cleanup truthy_def initial_apply_actions_def str_int_500)
qed

text \<open>
  C1 as stated fails on the trace that holds the sentinel only: the run ends
  without any command, so the delete of the root qdisc is run zero times, not
  once.
\<close>

theorem sentinel_only_run_no_teardown:
  "main (demo_env [[''0'', ''-1'']]) [''bandwidth_control.py'', ''eth0'', ''trace.csv'']
     (initial_world 0 None) =
   (Exit 0, \<lparr>target_interface = None, now = 0,
      out = [Print (Starting ''eth0''), Print (Using_trace ''trace.csv''),
             Print (Applying_latency ''50ms''), Print End_of_trace],
      pending = None\<rparr>)
   \<and> commands (out (snd (main (demo_env [[''0'', ''-1'']])
         [''bandwidth_control.py'', ''eth0'', ''trace.csv''] (initial_world 0 None)))) = []"
proof -
  let ?wb = "\<lparr>target_interface = None, now = 0,
      out = [Print (Starting ''eth0''), Print (Using_trace ''trace.csv''),
             Print (Applying_latency ''50ms''), Print End_of_trace],
      pending = None\<rparr>"
  have c: "snd (cleanup_tc (demo_env [[''0'', ''-1'']]) ?wb) = ?wb"
    by (rule cleanup_quiet(3)) (simp_all add: truthy_def)
  have "main (demo_env [[''0'', ''-1'']]) [''bandwidth_control.py'', ''eth0'', ''trace.csv'']
     (initial_world 0 None) = (Exit 0, ?wb)"
    using main_quiet [of "initial_world 0 None" "[''bandwidth_control.py'', ''eth0'', ''trace.csv'']"
        "demo_env [[''0'', ''-1'']]"] sentinel_only_before_cleanup c
    by (simp add: before_cleanup_def)
  then show ?thesis by simp
qed

end
